theory Spec2Isabelle
  imports Complex_Main "HOL-Library.Word" "HOL-Library.List_Lexorder" "HOL-Library.Char_ord"
begin

unbundle bit_operations_syntax

section \<open>Data model\<close>

text \<open>
  JavaScript values of type \<open>unknown\<close>, as they occur in parameter maps and
  raw payloads. Numbers are modelled as reals (no NaN, no infinities, no rounding), strings as
  lists of 8-bit characters, objects as association lists in insertion order.
\<close>

datatype json =
    JUndefined
  | JNull
  | JBool bool
  | JNum real
  | JStr string
  | JArr "json list"
  | JObj "(string \<times> json) list"

text \<open>
  \<open>PublicBusinessRecord\<close> (publicBusinessTransformer.ts) has exactly ten fields.
  \<open>BusinessRecord\<close> (DataSourceAdapter.ts) has the same ten fields and the optional
  \<open>_raw\<close> payload; it is the extension of the public record by that one field.
  \<open>StaffBusinessRecord\<close> is \<open>Omit<BusinessRecord, '_raw'>\<close> extended by \<open>raw\<close>.
  The field \<open>id\<close> is named \<open>id_field\<close> here.
\<close>

record PublicBusinessRecord =
  id_field :: string
  name :: string
  category :: string
  licenseType :: string
  status :: string
  lat :: "real option"
  lng :: "real option"
  issueDate :: "string option"
  province :: string
  source :: string

record 'raw BusinessRecord = PublicBusinessRecord +
  raw_payload :: "'raw option"

record 'raw StaffBusinessRecord = PublicBusinessRecord +
  raw :: "'raw"

section \<open>Visibility transforms\<close>

definition toPublicRecord :: "'raw BusinessRecord \<Rightarrow> PublicBusinessRecord" where
  "toPublicRecord record =
     \<lparr> id_field = id_field record,
       name = name record,
       category = category record,
       licenseType = licenseType record,
       status = status record,
       lat = lat record,
       lng = lng record,
       issueDate = issueDate record,
       province = province record,
       source = source record \<rparr>"

definition toPublicRecords :: "'raw BusinessRecord list \<Rightarrow> PublicBusinessRecord list" where
  "toPublicRecords records = map toPublicRecord records"

text \<open>Two business records agree on the ten whitelisted fields.\<close>

definition agree_on_whitelist :: "'a BusinessRecord \<Rightarrow> 'b BusinessRecord \<Rightarrow> bool" where
  "agree_on_whitelist r r' \<longleftrightarrow>
     id_field r = id_field r' \<and> name r = name r' \<and> category r = category r' \<and>
     licenseType r = licenseType r' \<and> status r = status r' \<and> lat r = lat r' \<and>
     lng r = lng r' \<and> issueDate r = issueDate r' \<and> province r = province r' \<and>
     source r = source r'"

section \<open>Cache keys\<close>

text \<open>
  \<open>Number.prototype.toString(16)\<close> on an unsigned 32-bit value: lower-case hexadecimal digits,
  no leading zeros, \<open>0\<close> for zero.
\<close>

definition hex_digit :: "nat \<Rightarrow> char" where
  "hex_digit d = ''0123456789abcdef'' ! (d mod 16)"

fun toString16 :: "nat \<Rightarrow> string" where
  "toString16 n = (if n < 16 then [hex_digit n] else toString16 (n div 16) @ [hex_digit (n mod 16)])"

declare toString16.simps [simp del]

text \<open>
  \<open>QuoteJSONString\<close> of ECMAScript, on 8-bit characters: the double quote and the backslash are
  escaped with a backslash, the control characters below 0x20 are written \<open>\b \t \n \f \r\<close> or
  as a four-digit \<open>\u\<close> escape, every other character stands for itself.
\<close>

definition quote_char :: "char \<Rightarrow> string" where
  "quote_char c =
     (if c = CHR 0x08 then [CHR 0x5C, CHR ''b'']
      else if c = CHR 0x09 then [CHR 0x5C, CHR ''t'']
      else if c = CHR 0x0A then [CHR 0x5C, CHR ''n'']
      else if c = CHR 0x0C then [CHR 0x5C, CHR ''f'']
      else if c = CHR 0x0D then [CHR 0x5C, CHR ''r'']
      else if c = CHR 0x22 then [CHR 0x5C, CHR 0x22]
      else if c = CHR 0x5C then [CHR 0x5C, CHR 0x5C]
      else if (of_char c :: nat) < 0x20
        then [CHR 0x5C, CHR ''u'', CHR ''0'', CHR ''0'',
              hex_digit (of_char c div 16), hex_digit (of_char c mod 16)]
      else [c])"

definition QuoteJSONString :: "string \<Rightarrow> string" where
  "QuoteJSONString s = CHR 0x22 # concat (map quote_char s) @ [CHR 0x22]"

fun join_comma :: "string list \<Rightarrow> string" where
  "join_comma [] = []"
| "join_comma [s] = s"
| "join_comma (s # t # ss) = s @ '','' @ join_comma (t # ss)"

text \<open>
  \<open>SerializeJSONProperty\<close> of ECMAScript with a property list \<open>K\<close> (the array given as
  replacer) and no indentation. The result \<open>None\<close> is JavaScript's \<open>undefined\<close>. An object
  is written by going through \<open>K\<close> in order, reading each key from the object and leaving out
  the keys whose value is absent or serializes to \<open>undefined\<close>; the same list \<open>K\<close> applies
  to nested objects. An array keeps its order and writes \<open>null\<close> for such an element. The text of a
  number is the parameter \<open>numstr\<close> (\<open>Number::toString\<close>).
\<close>

fun SerializeJSONProperty :: "(real \<Rightarrow> string) \<Rightarrow> string list \<Rightarrow> json \<Rightarrow> string option" where
  "SerializeJSONProperty numstr K JUndefined = None"
| "SerializeJSONProperty numstr K JNull = Some ''null''"
| "SerializeJSONProperty numstr K (JBool b) = Some (if b then ''true'' else ''false'')"
| "SerializeJSONProperty numstr K (JNum x) = Some (numstr x)"
| "SerializeJSONProperty numstr K (JStr s) = Some (QuoteJSONString s)"
| "SerializeJSONProperty numstr K (JArr xs) =
     Some (''['' @ join_comma (map (\<lambda>x. case SerializeJSONProperty numstr K x of
                                          None \<Rightarrow> ''null'' | Some s \<Rightarrow> s) xs) @ '']'')"
| "SerializeJSONProperty numstr K (JObj kvs) =
     Some (''{'' @ join_comma (List.map_filter
        (\<lambda>k. case map_of (map (\<lambda>p. (fst p, SerializeJSONProperty numstr K (snd p))) kvs) k of
                None \<Rightarrow> None
              | Some None \<Rightarrow> None
              | Some (Some s) \<Rightarrow> Some (QuoteJSONString k @ '':'' @ s)) K) @ ''}'')"

text \<open>
  \<open>JSON.stringify(value, replacer)\<close> with an array of strings as replacer: the property list is
  the array without its repeated entries.
\<close>

definition JSON_stringify :: "(real \<Rightarrow> string) \<Rightarrow> json \<Rightarrow> string list \<Rightarrow> string option" where
  "JSON_stringify numstr v replacer = SerializeJSONProperty numstr (remdups replacer) v"

text \<open>\<open>Object.keys\<close>: the keys of the object. The caller sorts them at once.\<close>

definition Object_keys :: "(string \<times> json) list \<Rightarrow> string list" where
  "Object_keys kvs = map fst kvs"

text \<open>
  The loop of \<open>buildKey\<close>: \<open>hash = ((hash << 5) + hash) ^ stable.charCodeAt(i)\<close>. The
  exclusive or converts its operands to 32-bit integers, so the value is computed modulo
  \<open>2 ^ 32\<close>.
\<close>

fun hash_loop :: "32 word \<Rightarrow> string \<Rightarrow> 32 word" where
  "hash_loop hash [] = hash"
| "hash_loop hash (c # cs) = hash_loop ((push_bit 5 hash + hash) XOR of_nat (of_char c)) cs"

text \<open>
  \<open>CacheService.buildKey\<close>. A parameter map always serializes to a string; the case
  \<open>None\<close> cannot occur for an object.
\<close>

definition buildKey :: "(real \<Rightarrow> string) \<Rightarrow> string \<Rightarrow> string \<Rightarrow> (string \<times> json) list \<Rightarrow> string" where
  "buildKey numstr src endpoint params =
     (let stable = (case JSON_stringify numstr (JObj params) (sort (Object_keys params)) of
                      None \<Rightarrow> [] | Some s \<Rightarrow> s);
          hash = hash_loop 5381 stable
      in src @ '':'' @ endpoint @ '':'' @ toString16 (unat hash))"

text \<open>
  The two values that \<open>buildKey\<close> computes on its way: the serialized parameter map with its
  keys sorted, and the 32-bit hash of that text.
\<close>

definition stable_text :: "(real \<Rightarrow> string) \<Rightarrow> (string \<times> json) list \<Rightarrow> string" where
  "stable_text numstr params =
     (case JSON_stringify numstr (JObj params) (sort (Object_keys params)) of
        None \<Rightarrow> [] | Some s \<Rightarrow> s)"

definition params_hash :: "(real \<Rightarrow> string) \<Rightarrow> (string \<times> json) list \<Rightarrow> 32 word" where
  "params_hash numstr params = hash_loop 5381 (stable_text numstr params)"

text \<open>
  The decimal text of an integer, which is what \<open>Number::toString\<close> gives for a number that is
  an integer of magnitude below \<open>10 ^ 21\<close>. It stands for \<open>Number::toString\<close> in the examples,
  which contain such numbers only.
\<close>

fun digits10 :: "nat \<Rightarrow> string" where
  "digits10 n = (if n < 10 then [char_of (48 + n)] else digits10 (n div 10) @ [char_of (48 + n mod 10)])"

declare digits10.simps [simp del]

definition integer_numstr :: "real \<Rightarrow> string" where
  "integer_numstr x = (if x < 0 then ''-'' @ digits10 (nat \<lfloor>- x\<rfloor>) else digits10 (nat \<lfloor>x\<rfloor>))"

section \<open>The Calgary adapter\<close>

text \<open>The shape of a record of the Socrata dataset, as the adapter declares it.\<close>

record SocrataPoint =
  point_type :: string
  coordinates :: "(real \<times> real) option"

record SocrataRecord =
  getbusid :: "string option"
  tradename :: "string option"
  address :: "string option"
  licencetypes :: "string option"
  jobstatusdesc :: "string option"
  first_iss_dt :: "string option"
  point :: "SocrataPoint option"
  other_fields :: "(string \<times> json) list"

record BoundingBox =
  north :: real
  south :: real
  east :: real
  west :: real

text \<open>
  \<open>RadiusQuery\<close>. The fields \<open>lat\<close>, \<open>lng\<close> and \<open>limit\<close> are named \<open>q_lat\<close>,
  \<open>q_lng\<close> and \<open>q_limit\<close> here; an absent limit is \<open>None\<close>.
\<close>

record RadiusQuery =
  q_lat :: real
  q_lng :: real
  radiusMetres :: real
  q_limit :: "real option"

text \<open>
  The query parameters of one request to the dataset. The \<open>$where\<close> text
  \<open>POINT IS NOT NULL AND within_box(POINT, north, west, south, east)\<close> is kept as its four
  numbers, in the order in which the text names them.
\<close>

datatype where_clause = PointNotNullWithinBox real real real real

record SocrataParams =
  where_param :: where_clause
  limit_param :: real
  order_param :: string

text \<open>
  A failed request, as the retry condition sees it: a response with a status outside 2xx, or an
  error without a response. The latter carries its error code, if it has one
  (\<open>ECONNABORTED\<close> is the code of a request that ran into the timeout of 10 s), and the verdict
  of the last test of \<open>axiosRetry.isNetworkError\<close> on it.

  \<open>axiosRetry.isNetworkError\<close> is the library's function, modelled from its documentation: it
  accepts an error that has no response, has an error code, whose code is not \<open>ECONNABORTED\<close>,
  and that its last test lets through (the package \<open>is-retry-allowed\<close> on the code, which
  rejects for example \<open>ENOTFOUND\<close> and the certificate errors; later versions of the library
  also reject the code of a cancelled request before it).
\<close>

datatype AxiosError = HttpError nat | NoResponse "string option" bool

fun isNetworkError :: "AxiosError \<Rightarrow> bool" where
  "isNetworkError (HttpError s) = False"
| "isNetworkError (NoResponse code allowed) =
     (code \<noteq> None \<and> code \<noteq> Some ''ECONNABORTED'' \<and> allowed)"

fun response_status :: "AxiosError \<Rightarrow> nat option" where
  "response_status (HttpError s) = Some s"
| "response_status (NoResponse code allowed) = None"

text \<open>What the program throws: a failed request, or any other thrown value with its message.\<close>

datatype exn = UpstreamError AxiosError | Thrown string

text \<open>
  The state that the server changes: the contents of the cache backend, the lines written
  to the console (\<open>console.info\<close>, \<open>console.warn\<close>, \<open>console.error\<close>), the
  requests sent to the dataset (one entry for each attempt), the retry numbers for which the
  client has waited \<open>axiosRetry.exponentialDelay\<close> before sending a request again, and the
  number of UUIDs drawn from the generator.
\<close>

datatype log_level = Info | Warn | Error

record 'b world =
  cache :: 'b
  console :: "(log_level \<times> string) list"
  sent :: "SocrataParams list"
  waited :: "nat list"
  uuids_drawn :: nat

text \<open>
  The dataset answers the \<open>n\<close>-th request sent to it (counting from 0) with
  \<open>upstream n params\<close>. \<open>crypto.randomUUID()\<close> returns \<open>randomUUID n\<close> at its \<open>n\<close>-th
  call.
\<close>

type_synonym upstream = "nat \<Rightarrow> SocrataParams \<Rightarrow> AxiosError + SocrataRecord list"

definition SOCRATA_PAGE_LIMIT :: real where
  "SOCRATA_PAGE_LIMIT = 1000"

definition sourceId :: string where
  "sourceId = ''calgary''"

text \<open>The options given to \<open>axiosRetry\<close> in the constructor.\<close>

definition retries :: nat where
  "retries = 3"

definition retryCondition :: "AxiosError \<Rightarrow> bool" where
  "retryCondition err =
     (let status = response_status err
      in isNetworkError err \<or> status = Some 429 \<or> (status \<noteq> None \<and> the status \<ge> 500))"

text \<open>
  \<open>this.client.get\<close> under the \<open>axios-retry\<close> interceptor. The retry loop is the
  library's: a failed request is sent again when fewer than \<open>retries\<close> retries have been made
  for it and \<open>retryCondition\<close> accepts the error; the counter \<open>retryCount\<close> starts at 0 and
  counts the retries, not the first request. Before the request is sent again the counter is
  increased and the client waits for \<open>retryDelay(retryCount)\<close>, which is
  \<open>axiosRetry.exponentialDelay\<close> here (in the library \<open>2 ^ retryCount * 100\<close> ms and a random
  addition of up to a fifth); the state records the retry number, not the time.
\<close>

function client_get :: "upstream \<Rightarrow> SocrataParams \<Rightarrow> nat \<Rightarrow> 'b world
    \<Rightarrow> (AxiosError + SocrataRecord list) \<times> 'b world" where
  "client_get up params retryCount w =
     (case up (length (sent w)) params of
        Inr data \<Rightarrow> (Inr data, w\<lparr>sent := sent w @ [params]\<rparr>)
      | Inl err \<Rightarrow>
          if retryCount < retries \<and> retryCondition err
          then client_get up params (Suc retryCount)
                 (w\<lparr>sent := sent w @ [params], waited := waited w @ [Suc retryCount]\<rparr>)
          else (Inl err, w\<lparr>sent := sent w @ [params]\<rparr>))"
  by pat_completeness auto
termination
  by (relation "measure (\<lambda>(up, params, retryCount, w). retries - retryCount)") auto

declare client_get.simps [simp del]

text \<open>
  \<open>toBusinessRecord\<close>. The UUID is drawn only when \<open>getbusid\<close> is absent.
\<close>

definition toBusinessRecord :: "(nat \<Rightarrow> string) \<Rightarrow> SocrataRecord \<Rightarrow> 'b world
    \<Rightarrow> SocrataRecord BusinessRecord \<times> 'b world" where
  "toBusinessRecord randomUUID r w =
     (let (lat0, lng0) = (case point r of
                        None \<Rightarrow> (None, None)
                      | Some pt \<Rightarrow> (case coordinates pt of
                                      None \<Rightarrow> (None, None)
                                    | Some (c0, c1) \<Rightarrow> (Some c1, Some c0)));
          (ident, w') = (case getbusid r of
                           Some g \<Rightarrow> (g, w)
                         | None \<Rightarrow> (randomUUID (uuids_drawn w), w\<lparr>uuids_drawn := Suc (uuids_drawn w)\<rparr>))
      in (\<lparr> id_field = ident,
            name = (case tradename r of Some n \<Rightarrow> n | None \<Rightarrow> ''Unknown Business''),
            category = (case licencetypes r of Some c \<Rightarrow> c | None \<Rightarrow> ''Uncategorized''),
            licenseType = (case licencetypes r of Some c \<Rightarrow> c | None \<Rightarrow> []),
            status = (case jobstatusdesc r of Some c \<Rightarrow> c | None \<Rightarrow> ''Active''),
            lat = lat0,
            lng = lng0,
            issueDate = first_iss_dt r,
            province = ''AB'',
            source = sourceId,
            raw_payload = Some r \<rparr>, w'))"

text \<open>\<open>data.map((r) => this.toBusinessRecord(r))\<close>, from the first record to the last.\<close>

fun map_toBusinessRecord :: "(nat \<Rightarrow> string) \<Rightarrow> SocrataRecord list \<Rightarrow> 'b world
    \<Rightarrow> SocrataRecord BusinessRecord list \<times> 'b world" where
  "map_toBusinessRecord randomUUID [] w = ([], w)"
| "map_toBusinessRecord randomUUID (r # rs) w =
     (let (b, w1) = toBusinessRecord randomUUID r w;
          (bs, w2) = map_toBusinessRecord randomUUID rs w1
      in (b # bs, w2))"

definition fetchByBoundingBox :: "upstream \<Rightarrow> (nat \<Rightarrow> string) \<Rightarrow> BoundingBox \<Rightarrow> real option
    \<Rightarrow> 'b world \<Rightarrow> (exn + SocrataRecord BusinessRecord list) \<times> 'b world" where
  "fetchByBoundingBox up randomUUID bbox limit w =
     (let lim = (case limit of None \<Rightarrow> SOCRATA_PAGE_LIMIT | Some l \<Rightarrow> l);
          wh = PointNotNullWithinBox (north bbox) (west bbox) (south bbox) (east bbox)
      in case client_get up \<lparr> where_param = wh, limit_param = lim,
                                order_param = ''FIRST_ISS_DT DESC'' \<rparr> 0 w of
           (Inl err, w1) \<Rightarrow> (Inl (UpstreamError err), w1)
         | (Inr data, w1) \<Rightarrow>
             (let (records, w2) = map_toBusinessRecord randomUUID data w1 in (Inr records, w2)))"

text \<open>\<open>Math.atan2(y, x)\<close> on real numbers.\<close>

definition Math_atan2 :: "real \<Rightarrow> real \<Rightarrow> real" where
  "Math_atan2 y x =
     (if x > 0 then arctan (y / x)
      else if x < 0 then (if y \<ge> 0 then arctan (y / x) + pi else arctan (y / x) - pi)
      else if y > 0 then pi / 2
      else if y < 0 then - pi / 2
      else 0)"

definition toRad :: "real \<Rightarrow> real" where
  "toRad deg = (deg * pi) / 180"

definition haversine :: "real \<Rightarrow> real \<Rightarrow> real \<Rightarrow> real \<Rightarrow> real" where
  "haversine lat1 lng1 lat2 lng2 =
     (let R = 6371000;
          dLat = toRad (lat2 - lat1);
          dLng = toRad (lng2 - lng1);
          a = (sin (dLat / 2)) ^ 2 + cos (toRad lat1) * cos (toRad lat2) * (sin (dLng / 2)) ^ 2
      in R * 2 * Math_atan2 (sqrt a) (sqrt (1 - a)))"

text \<open>
  \<open>Array.prototype.slice(start, end)\<close>: both arguments are truncated towards zero, and a
  negative one counts from the end of the array.
\<close>

definition ToIntegerOrInfinity :: "real \<Rightarrow> int" where
  "ToIntegerOrInfinity x = (if x < 0 then \<lceil>x\<rceil> else \<lfloor>x\<rfloor>)"

definition relative_index :: "nat \<Rightarrow> real \<Rightarrow> nat" where
  "relative_index len x =
     (let rel = ToIntegerOrInfinity x
      in if rel < 0 then nat (max (int len + rel) 0) else nat (min rel (int len)))"

definition Array_slice :: "'a list \<Rightarrow> real \<Rightarrow> real \<Rightarrow> 'a list" where
  "Array_slice xs start end =
     (let k = relative_index (length xs) start;
          final = relative_index (length xs) end
      in take (final - k) (drop k xs))"

text \<open>The test of the filter in \<open>fetchByRadius\<close>.\<close>

definition within_radius :: "real \<Rightarrow> real \<Rightarrow> real \<Rightarrow> 'r BusinessRecord \<Rightarrow> bool" where
  "within_radius qlat qlng radius r =
     (case lat r of
        None \<Rightarrow> False
      | Some rlat \<Rightarrow> (case lng r of
                       None \<Rightarrow> False
                     | Some rlng \<Rightarrow> haversine qlat qlng rlat rlng \<le> radius))"

definition fetchByRadius :: "upstream \<Rightarrow> (nat \<Rightarrow> string) \<Rightarrow> RadiusQuery
    \<Rightarrow> 'b world \<Rightarrow> (exn + SocrataRecord BusinessRecord list) \<times> 'b world" where
  "fetchByRadius up randomUUID query w =
     (let limit = (case q_limit query of None \<Rightarrow> SOCRATA_PAGE_LIMIT | Some l \<Rightarrow> l);
          degreeOffset = radiusMetres query / 111320;
          bbox = \<lparr> north = q_lat query + degreeOffset,
                   south = q_lat query - degreeOffset,
                   east = q_lng query + degreeOffset / cos ((q_lat query * pi) / 180),
                   west = q_lng query - degreeOffset / cos ((q_lat query * pi) / 180) \<rparr>
      in case fetchByBoundingBox up randomUUID bbox (Some (limit * 2)) w of
           (Inl err, w1) \<Rightarrow> (Inl err, w1)
         | (Inr records, w1) \<Rightarrow>
             (Inr (Array_slice (filter (within_radius (q_lat query) (q_lng query) (radiusMetres query))
                            records) 0 limit), w1))"

section \<open>The cache service\<close>

text \<open>
  \<open>try { ... } catch (err) { ... }\<close>: the handler runs in the state that the body has
  reached when it throws.
\<close>

definition try_catch :: "('s \<Rightarrow> (exn + 'a) \<times> 's) \<Rightarrow> (exn \<Rightarrow> 's \<Rightarrow> (exn + 'a) \<times> 's)
    \<Rightarrow> 's \<Rightarrow> (exn + 'a) \<times> 's" where
  "try_catch block handler w =
     (case block w of
        (Inl err, w1) \<Rightarrow> handler err w1
      | (Inr v, w1) \<Rightarrow> (Inr v, w1))"

text \<open>
  The interface \<open>CacheBackend\<close>. Each operation may throw, and changes the contents \<open>'b\<close> of
  the backend.
\<close>

record 'b CacheBackend =
  backend_get :: "string \<Rightarrow> 'b \<Rightarrow> (exn + string option) \<times> 'b"
  backend_set :: "string \<Rightarrow> string \<Rightarrow> real \<Rightarrow> 'b \<Rightarrow> (exn + unit) \<times> 'b"
  backend_del :: "string \<Rightarrow> 'b \<Rightarrow> (exn + unit) \<times> 'b"

text \<open>\<open>InMemoryBackend\<close>; the expiry of an entry after its time to live is not modelled.\<close>

definition InMemoryBackend :: "(string \<rightharpoonup> string) CacheBackend" where
  "InMemoryBackend =
     \<lparr> backend_get = (\<lambda>key store. (Inr (store key), store)),
       backend_set = (\<lambda>key val ttlSeconds store. (Inr (), store(key \<mapsto> val))),
       backend_del = (\<lambda>key store. (Inr (), store(key := None))) \<rparr>"

text \<open>
  \<open>RedisBackend\<close>, over the operations of the \<open>ioredis\<close> client, which are parameters. The
  fields \<open>client\<close> and \<open>ready\<close> are the state of the backend.
\<close>

record 'c Redis =
  redis_get :: "string \<Rightarrow> 'c \<Rightarrow> (exn + string option) \<times> 'c"
  redis_setex :: "string \<Rightarrow> real \<Rightarrow> string \<Rightarrow> 'c \<Rightarrow> (exn + unit) \<times> 'c"
  redis_del :: "string \<Rightarrow> 'c \<Rightarrow> (exn + unit) \<times> 'c"

record 'c RedisBackend_state =
  client :: "'c option"
  ready :: bool

definition RedisBackend :: "'c Redis \<Rightarrow> 'c RedisBackend_state CacheBackend" where
  "RedisBackend io =
     \<lparr> backend_get = (\<lambda>key st.
          case client st of
            None \<Rightarrow> (Inr None, st)
          | Some c \<Rightarrow> if \<not> ready st then (Inr None, st)
                      else (case redis_get io key c of (r, c1) \<Rightarrow> (r, st\<lparr>client := Some c1\<rparr>))),
       backend_set = (\<lambda>key val ttlSeconds st.
          case client st of
            None \<Rightarrow> (Inr (), st)
          | Some c \<Rightarrow> if \<not> ready st then (Inr (), st)
                      else (case redis_setex io key ttlSeconds val c of
                              (r, c1) \<Rightarrow> (r, st\<lparr>client := Some c1\<rparr>))),
       backend_del = (\<lambda>key st.
          case client st of
            None \<Rightarrow> (Inr (), st)
          | Some c \<Rightarrow> if \<not> ready st then (Inr (), st)
                      else (case redis_del io key c of (r, c1) \<Rightarrow> (r, st\<lparr>client := Some c1\<rparr>))) \<rparr>"

text \<open>
  \<open>CacheService.get\<close>, \<open>set\<close> and \<open>invalidate\<close>. \<open>JSON.parse\<close> and \<open>JSON.stringify\<close>
  are parameters that may throw. The value \<open>null\<close> returned by \<open>get\<close> is \<open>JNull\<close>.
\<close>

definition CacheService_get :: "'b CacheBackend \<Rightarrow> (string \<Rightarrow> exn + json) \<Rightarrow> string
    \<Rightarrow> 'b world \<Rightarrow> (exn + json) \<times> 'b world" where
  "CacheService_get backend JSON_parse key =
     try_catch
       (\<lambda>w. case backend_get backend key (cache w) of
               (Inl err, c) \<Rightarrow> (Inl err, w\<lparr>cache := c\<rparr>)
             | (Inr None, c) \<Rightarrow> (Inr JNull, w\<lparr>cache := c\<rparr>)
             | (Inr (Some rawText), c) \<Rightarrow>
                 (case JSON_parse rawText of
                    Inl err \<Rightarrow> (Inl err, w\<lparr>cache := c\<rparr>)
                  | Inr v \<Rightarrow> (Inr v, w\<lparr>cache := c\<rparr>)))
       (\<lambda>err w. (Inr JNull, w))"

definition CacheService_set :: "'b CacheBackend \<Rightarrow> ('v \<Rightarrow> exn + string) \<Rightarrow> real \<Rightarrow> string \<Rightarrow> 'v
    \<Rightarrow> real option \<Rightarrow> 'b world \<Rightarrow> (exn + unit) \<times> 'b world" where
  "CacheService_set backend JSON_stringify_value ttl key val ttlSeconds =
     try_catch
       (\<lambda>w. case JSON_stringify_value val of
               Inl err \<Rightarrow> (Inl err, w)
             | Inr text \<Rightarrow>
                 (case backend_set backend key text
                         (case ttlSeconds of None \<Rightarrow> ttl | Some t \<Rightarrow> t) (cache w) of
                    (r, c) \<Rightarrow> (r, w\<lparr>cache := c\<rparr>)))
       (\<lambda>err w. (Inr (), w\<lparr>console := console w @ [(Warn, ''CacheService.set failed:'')]\<rparr>))"

definition CacheService_invalidate :: "'b CacheBackend \<Rightarrow> string \<Rightarrow> 'b world
    \<Rightarrow> (exn + unit) \<times> 'b world" where
  "CacheService_invalidate backend key =
     try_catch
       (\<lambda>w. case backend_del backend key (cache w) of (r, c) \<Rightarrow> (r, w\<lparr>cache := c\<rparr>))
       (\<lambda>err w. (Inr (), w\<lparr>console := console w @ [(Warn, ''CacheService.invalidate failed:'')]\<rparr>))"

section \<open>The routes\<close>

text \<open>JavaScript's truthiness, as in \<open>if (cached)\<close>.\<close>

fun truthy :: "json \<Rightarrow> bool" where
  "truthy JUndefined = False"
| "truthy JNull = False"
| "truthy (JBool b) = b"
| "truthy (JNum x) = (x \<noteq> 0)"
| "truthy (JStr s) = (s \<noteq> [])"
| "truthy (JArr xs) = True"
| "truthy (JObj kvs) = True"

text \<open>
  What a handler sends: the status (200 unless \<open>res.status\<close> sets it), the header \<open>X-Cache\<close>
  if set, and the body given to \<open>res.json\<close>: an error object, an error object with the
  details of the failed validation, a value read from the cache, or an array of records.
\<close>

datatype 'r body =
    ErrorBody string
  | InvalidBody string json
  | CachedBody json
  | RecordsBody "'r list"

record 'r response =
  statusCode :: nat
  x_cache :: "string option"
  body :: "'r body"

text \<open>
  The data of a successful \<open>bboxSchema.safeParse\<close> and \<open>nearbySchema.safeParse\<close>. The
  fields \<open>lat\<close>, \<open>lng\<close>, \<open>radius\<close> and \<open>limit\<close> of the latter are named with the prefix
  \<open>n_\<close> here.
\<close>

record bboxQuery = BoundingBox +
  limit :: real

record nearbyQuery =
  n_lat :: real
  n_lng :: real
  n_radius :: real
  n_limit :: real

text \<open>
  What the handlers are given by their surroundings: the text of a number, \<open>JSON.parse\<close>,
  \<open>JSON.stringify\<close> on the arrays that are cached, the cache backend chosen at startup, the
  default time to live, the dataset and the UUID generator.
\<close>

record 'b server_env =
  env_numstr :: "real \<Rightarrow> string"
  env_JSON_parse :: "string \<Rightarrow> exn + json"
  env_stringify_public :: "PublicBusinessRecord list \<Rightarrow> exn + string"
  env_stringify_staff :: "SocrataRecord StaffBusinessRecord list \<Rightarrow> exn + string"
  env_backend :: "'b CacheBackend"
  env_ttl :: real
  env_upstream :: upstream
  env_randomUUID :: "nat \<Rightarrow> string"

definition toStaffRecord :: "'raw BusinessRecord \<Rightarrow> 'raw \<Rightarrow> 'raw StaffBusinessRecord" where
  "toStaffRecord record empty_object =
     \<lparr> id_field = id_field record,
       name = name record,
       category = category record,
       licenseType = licenseType record,
       status = status record,
       lat = lat record,
       lng = lng record,
       issueDate = issueDate record,
       province = province record,
       source = source record,
       raw = (case raw_payload record of None \<Rightarrow> empty_object | Some p \<Rightarrow> p) \<rparr>"

text \<open>The object \<open>{}\<close> as a Socrata record: no field is present.\<close>

definition empty_SocrataRecord :: SocrataRecord where
  "empty_SocrataRecord =
     \<lparr> getbusid = None, tradename = None, address = None, licencetypes = None,
       jobstatusdesc = None, first_iss_dt = None, point = None, other_fields = [] \<rparr>"

definition toStaffRecords :: "SocrataRecord BusinessRecord list \<Rightarrow> SocrataRecord StaffBusinessRecord list" where
  "toStaffRecords records = map (\<lambda>r. toStaffRecord r empty_SocrataRecord) records"

text \<open>
  \<open>GET /api/v1/businesses\<close>. The argument \<open>parsed\<close> is the result of
  \<open>bboxSchema.safeParse(req.query)\<close>: the details of the failure, or the data. An exception
  that leaves the handler goes to \<open>next\<close>.
\<close>

definition get_businesses :: "'b server_env \<Rightarrow> json + bboxQuery \<Rightarrow> 'b world
    \<Rightarrow> (exn + PublicBusinessRecord response) \<times> 'b world" where
  "get_businesses env parsed w =
     (case parsed of
        Inl details \<Rightarrow>
          (Inr \<lparr> statusCode = 400, x_cache = None,
                 body = InvalidBody ''Invalid query parameters'' details \<rparr>, w)
      | Inr q \<Rightarrow>
          (let cacheKey = buildKey (env_numstr env) ''calgary'' ''bbox''
                 [(''north'', JNum (north q)), (''south'', JNum (south q)),
                  (''east'', JNum (east q)), (''west'', JNum (west q)),
                  (''limit'', JNum (limit q))]
           in case CacheService_get (env_backend env) (env_JSON_parse env) cacheKey w of
                (Inl err, w1) \<Rightarrow> (Inl err, w1)
              | (Inr cached, w1) \<Rightarrow>
                  if truthy cached
                  then (Inr \<lparr> statusCode = 200, x_cache = Some ''HIT'', body = CachedBody cached \<rparr>, w1)
                  else try_catch
                    (\<lambda>w1. case fetchByBoundingBox (env_upstream env) (env_randomUUID env)
                                  \<lparr> north = north q, south = south q, east = east q, west = west q \<rparr>
                                  (Some (limit q)) w1 of
                             (Inl err, w2) \<Rightarrow> (Inl err, w2)
                           | (Inr records, w2) \<Rightarrow>
                               (let result = toPublicRecords records
                                in case CacheService_set (env_backend env) (env_stringify_public env)
                                          (env_ttl env) cacheKey result None w2 of
                                     (Inl err, w3) \<Rightarrow> (Inl err, w3)
                                   | (Inr u, w3) \<Rightarrow>
                                       (Inr \<lparr> statusCode = 200, x_cache = Some ''MISS'',
                                              body = RecordsBody result \<rparr>, w3)))
                    (\<lambda>err w2.
                       (Inr \<lparr> statusCode = 502, x_cache = None,
                              body = ErrorBody ''Upstream data source unavailable'' \<rparr>,
                        w2\<lparr>console := console w2 @ [(Error, ''fetchByBoundingBox error:'')]\<rparr>))
                    w1))"

text \<open>\<open>GET /api/v1/businesses/nearby\<close>.\<close>

definition get_businesses_nearby :: "'b server_env \<Rightarrow> json + nearbyQuery \<Rightarrow> 'b world
    \<Rightarrow> (exn + PublicBusinessRecord response) \<times> 'b world" where
  "get_businesses_nearby env parsed w =
     (case parsed of
        Inl details \<Rightarrow>
          (Inr \<lparr> statusCode = 400, x_cache = None,
                 body = InvalidBody ''Invalid query parameters'' details \<rparr>, w)
      | Inr q \<Rightarrow>
          (let cacheKey = buildKey (env_numstr env) ''calgary'' ''nearby''
                 [(''lat'', JNum (n_lat q)), (''lng'', JNum (n_lng q)),
                  (''radius'', JNum (n_radius q)), (''limit'', JNum (n_limit q))]
           in case CacheService_get (env_backend env) (env_JSON_parse env) cacheKey w of
                (Inl err, w1) \<Rightarrow> (Inl err, w1)
              | (Inr cached, w1) \<Rightarrow>
                  if truthy cached
                  then (Inr \<lparr> statusCode = 200, x_cache = Some ''HIT'', body = CachedBody cached \<rparr>, w1)
                  else try_catch
                    (\<lambda>w1. case fetchByRadius (env_upstream env) (env_randomUUID env)
                                  \<lparr> q_lat = n_lat q, q_lng = n_lng q, radiusMetres = n_radius q,
                                    q_limit = Some (n_limit q) \<rparr> w1 of
                             (Inl err, w2) \<Rightarrow> (Inl err, w2)
                           | (Inr records, w2) \<Rightarrow>
                               (let result = toPublicRecords records
                                in case CacheService_set (env_backend env) (env_stringify_public env)
                                          (env_ttl env) cacheKey result None w2 of
                                     (Inl err, w3) \<Rightarrow> (Inl err, w3)
                                   | (Inr u, w3) \<Rightarrow>
                                       (Inr \<lparr> statusCode = 200, x_cache = Some ''MISS'',
                                              body = RecordsBody result \<rparr>, w3)))
                    (\<lambda>err w2.
                       (Inr \<lparr> statusCode = 502, x_cache = None,
                              body = ErrorBody ''Upstream data source unavailable'' \<rparr>,
                        w2\<lparr>console := console w2 @ [(Error, ''fetchByRadius error:'')]\<rparr>))
                    w1))"

text \<open>
  \<open>GET /api/v1/staff/businesses\<close>, the handler that runs after \<open>requireJwt\<close> and
  \<open>requireRole('staff')\<close> have let the request through.
\<close>

definition get_staff_businesses :: "'b server_env \<Rightarrow> json + bboxQuery \<Rightarrow> 'b world
    \<Rightarrow> (exn + SocrataRecord StaffBusinessRecord response) \<times> 'b world" where
  "get_staff_businesses env parsed w =
     (case parsed of
        Inl details \<Rightarrow>
          (Inr \<lparr> statusCode = 400, x_cache = None,
                 body = InvalidBody ''Invalid query parameters'' details \<rparr>, w)
      | Inr q \<Rightarrow>
          (let cacheKey = buildKey (env_numstr env) ''calgary'' ''staff-bbox''
                 [(''north'', JNum (north q)), (''south'', JNum (south q)),
                  (''east'', JNum (east q)), (''west'', JNum (west q)),
                  (''limit'', JNum (limit q))]
           in case CacheService_get (env_backend env) (env_JSON_parse env) cacheKey w of
                (Inl err, w1) \<Rightarrow> (Inl err, w1)
              | (Inr cached, w1) \<Rightarrow>
                  if truthy cached
                  then (Inr \<lparr> statusCode = 200, x_cache = Some ''HIT'', body = CachedBody cached \<rparr>, w1)
                  else try_catch
                    (\<lambda>w1. case fetchByBoundingBox (env_upstream env) (env_randomUUID env)
                                  \<lparr> north = north q, south = south q, east = east q, west = west q \<rparr>
                                  (Some (limit q)) w1 of
                             (Inl err, w2) \<Rightarrow> (Inl err, w2)
                           | (Inr records, w2) \<Rightarrow>
                               (let result = toStaffRecords records
                                in case CacheService_set (env_backend env) (env_stringify_staff env)
                                          (env_ttl env) cacheKey result (Some 900) w2 of
                                     (Inl err, w3) \<Rightarrow> (Inl err, w3)
                                   | (Inr u, w3) \<Rightarrow>
                                       (Inr \<lparr> statusCode = 200, x_cache = Some ''MISS'',
                                              body = RecordsBody result \<rparr>, w3)))
                    (\<lambda>err w2.
                       (Inr \<lparr> statusCode = 502, x_cache = None,
                              body = ErrorBody ''Upstream data source unavailable'' \<rparr>,
                        w2\<lparr>console := console w2 @ [(Error, ''staff fetchByBoundingBox error:'')]\<rparr>))
                    w1))"

section \<open>Records used as examples\<close>

text \<open>
  The record \<open>fullRecord\<close> of the transformer's test, and the same record with another raw
  payload.
\<close>

definition fullRecord :: "(string \<times> json) list BusinessRecord" where
  "fullRecord =
     \<lparr> id_field = ''BL-001'', name = ''Acme Coffee Co'', category = ''Food Service'',
       licenseType = ''Business'', status = ''Active'', lat = Some (510447 / 10000),
       lng = Some (- 1140719 / 10000), issueDate = Some ''2023-01-15'', province = ''AB'',
       source = ''calgary'',
       raw_payload = Some [(''owner_name'', JStr ''Jane Doe''),
                           (''business_address'', JStr ''123 Main St SW''),
                           (''business_phone'', JStr ''403-555-0100''),
                           (''license_number'', JStr ''BL-001'')] \<rparr>"

definition sentinelRecord :: "(string \<times> json) list BusinessRecord" where
  "sentinelRecord = fullRecord\<lparr>raw_payload := Some [(''SENTINEL_KEY'', JStr ''SENTINEL_VALUE'')]\<rparr>"

text \<open>
  A state in which nothing has happened yet, with the in-memory backend's empty store; the
  bounding box and the radius query of the end-to-end scenarios; one record of the dataset at the
  query point, with its identifier, and one without identifier and without position.
\<close>

definition world0 :: "(string \<rightharpoonup> string) world" where
  "world0 = \<lparr> cache = Map.empty, console = [], sent = [], waited = [], uuids_drawn = 0 \<rparr>"

definition sample_bbox :: BoundingBox where
  "sample_bbox = \<lparr> north = 5110 / 100, south = 51, east = - 11390 / 100, west = - 11410 / 100 \<rparr>"

definition sample_params :: SocrataParams where
  "sample_params =
     \<lparr> where_param = PointNotNullWithinBox (5110 / 100) (- 11410 / 100) 51 (- 11390 / 100),
       limit_param = 500, order_param = ''FIRST_ISS_DT DESC'' \<rparr>"

definition sample_query :: RadiusQuery where
  "sample_query = \<lparr> q_lat = 510447 / 10000, q_lng = - 1140719 / 10000, radiusMetres = 1000,
                     q_limit = Some 500 \<rparr>"


definition record_at_query_point :: SocrataRecord where
  "record_at_query_point =
     \<lparr> getbusid = Some ''BL-001'', tradename = Some ''Test Business'', address = None,
       licencetypes = Some ''Food Service'', jobstatusdesc = Some ''Active'',
       first_iss_dt = Some ''2023-01-15'',
       point = Some \<lparr> point_type = ''Point'',
                       coordinates = Some (- 1140719 / 10000, 510447 / 10000) \<rparr>,
       other_fields = [(''owner_name'', JStr ''Jane Doe'')] \<rparr>"

definition record_without_point :: SocrataRecord where
  "record_without_point =
     \<lparr> getbusid = None, tradename = Some ''No Position'', address = None,
       licencetypes = None, jobstatusdesc = None, first_iss_dt = None,
       point = None, other_fields = [] \<rparr>"

definition sample_uuid :: "nat \<Rightarrow> string" where
  "sample_uuid n = ''uuid-'' @ digits10 n"


text \<open>
  Datasets: one that answers every request with status 500, one that answers with status 404,
  one that lets every request run into the timeout, one that fails three times with status 500
  and then answers, one that answers with the two records, and one that answers with the record
  at the query point twice.
\<close>

definition upstream_always_500 :: upstream where
  "upstream_always_500 n params = Inl (HttpError 500)"




definition upstream_two_records :: upstream where
  "upstream_two_records n params = Inr [record_at_query_point, record_without_point]"



text \<open>
  For the cache service: an \<open>ioredis\<close> client whose every command throws, a Redis backend that
  is ready and one that is not, a \<open>JSON.parse\<close> that throws and a \<open>JSON.stringify\<close> that
  returns a text. For the routes: the surroundings of the handlers with the in-memory backend
  and the dataset that answers every request with status 500, and the parsed queries of the two
  end-to-end scenarios.
\<close>

definition failing_redis :: "unit Redis" where
  "failing_redis =
     \<lparr> redis_get = (\<lambda>key c. (Inl (Thrown ''Connection is closed.''), c)),
       redis_setex = (\<lambda>key ttlSeconds val c. (Inl (Thrown ''Connection is closed.''), c)),
       redis_del = (\<lambda>key c. (Inl (Thrown ''Connection is closed.''), c)) \<rparr>"

definition redis_ready :: "unit RedisBackend_state world" where
  "redis_ready = \<lparr> cache = \<lparr> client = Some (), ready = True \<rparr>, console = [], sent = [],
                    waited = [], uuids_drawn = 0 \<rparr>"

definition redis_not_ready :: "unit RedisBackend_state world" where
  "redis_not_ready = \<lparr> cache = \<lparr> client = Some (), ready = False \<rparr>, console = [], sent = [],
                        waited = [], uuids_drawn = 0 \<rparr>"

definition parse_throws :: "string \<Rightarrow> exn + json" where
  "parse_throws s = Inl (Thrown ''Unexpected token'')"

definition stringify_text :: "'v \<Rightarrow> exn + string" where
  "stringify_text v = Inr ''[]''"

definition sample_env :: "(string \<rightharpoonup> string) server_env" where
  "sample_env =
     \<lparr> env_numstr = integer_numstr, env_JSON_parse = parse_throws,
       env_stringify_public = stringify_text, env_stringify_staff = stringify_text,
       env_backend = InMemoryBackend, env_ttl = 3600, env_upstream = upstream_always_500,
       env_randomUUID = sample_uuid \<rparr>"

definition sample_bboxQuery :: bboxQuery where
  "sample_bboxQuery = \<lparr> north = 5110 / 100, south = 51, east = - 11390 / 100,
                          west = - 11410 / 100, limit = 500 \<rparr>"

definition sample_nearbyQuery :: nearbyQuery where
  "sample_nearbyQuery = \<lparr> n_lat = 510447 / 10000, n_lng = - 1140719 / 10000, n_radius = 1000,
                            n_limit = 500 \<rparr>"

section \<open>The public projection\<close>

text \<open>
  C1. The public projection of a business record consists of the ten whitelisted fields of the
  record, each copied unchanged, and nothing more (the record extension is the unit value);
  two records that agree on the ten fields, whatever their raw payloads and
  payload types, have the same projection; in particular replacing the raw payload by an
  arbitrary one leaves the projection unchanged.
\<close>

theorem toPublicRecord_whitelist_only:
  fixes r :: "'a BusinessRecord" and r' :: "'b BusinessRecord"
  shows "id_field (toPublicRecord r) = id_field r \<and> name (toPublicRecord r) = name r \<and>
     category (toPublicRecord r) = category r \<and> licenseType (toPublicRecord r) = licenseType r \<and>
     status (toPublicRecord r) = status r \<and> lat (toPublicRecord r) = lat r \<and>
     lng (toPublicRecord r) = lng r \<and> issueDate (toPublicRecord r) = issueDate r \<and>
     province (toPublicRecord r) = province r \<and> source (toPublicRecord r) = source r \<and>
     PublicBusinessRecord.more (toPublicRecord r) = () \<and>
     (agree_on_whitelist r r' \<longrightarrow> toPublicRecord r = toPublicRecord r') \<and>
     toPublicRecord (r\<lparr>raw_payload := p\<rparr>) = toPublicRecord r"
  by (simp add: toPublicRecord_def agree_on_whitelist_def)

theorem toPublicRecord_whitelist_only_witness:
  "agree_on_whitelist fullRecord sentinelRecord \<and>
   raw_payload fullRecord \<noteq> raw_payload sentinelRecord \<and>
   toPublicRecord fullRecord = toPublicRecord sentinelRecord"
  using toPublicRecord_whitelist_only [of fullRecord sentinelRecord]
  by (simp add: agree_on_whitelist_def fullRecord_def sentinelRecord_def)

section \<open>Properties of the cache keys\<close>

lemma map_of_rendered:
  "map_of (map (\<lambda>p. (fst p, f (snd p))) kvs) = map_option f \<circ> map_of kvs"
  by (induction kvs) (auto simp: fun_eq_iff)

lemma SerializeJSONProperty_JObj_map_of:
  assumes "map_of kvs = map_of kvs'"
  shows "SerializeJSONProperty numstr K (JObj kvs) = SerializeJSONProperty numstr K (JObj kvs')"
  using assms by (simp add: map_of_rendered)

lemma sort_keys_eq:
  assumes "distinct (map fst p1)" and "distinct (map fst p2)" and "set p1 = set p2"
  shows "sort (Object_keys p1) = sort (Object_keys p2)"
  unfolding Object_keys_def
  by (rule sorted_distinct_set_unique) (simp_all add: assms)

text \<open>
  C5. \<open>buildKey\<close> is a function of its arguments, and it does not depend on the order in
  which the parameter map was built: two parameter maps with the same key/value pairs (each key
  once) give the same key, for every source, every operation and every way of writing numbers.
\<close>

theorem buildKey_order_independent:
  assumes "distinct (map fst paramsA)" and "distinct (map fst paramsB)"
    and "set paramsA = set paramsB"
  shows "buildKey numstr src endpoint paramsA = buildKey numstr src endpoint paramsB"
proof -
  have keys: "sort (Object_keys paramsA) = sort (Object_keys paramsB)"
    using assms by (rule sort_keys_eq)
  have "map_of paramsA = map_of paramsB"
    using assms by (simp add: map_of_inject_set)
  then have "SerializeJSONProperty numstr K (JObj paramsA) = SerializeJSONProperty numstr K (JObj paramsB)" for K
    by (rule SerializeJSONProperty_JObj_map_of)
  then show ?thesis
    by (simp add: buildKey_def JSON_stringify_def keys)
qed

theorem buildKey_order_independent_witness:
  "distinct (map fst [(''lat'', JNum 51), (''lng'', JNum (- 114))]) \<and>
   distinct (map fst [(''lng'', JNum (- 114)), (''lat'', JNum 51)]) \<and>
   set [(''lat'', JNum 51), (''lng'', JNum (- 114))] = set [(''lng'', JNum (- 114)), (''lat'', JNum 51)] \<and>
   [(''lat'', JNum 51), (''lng'', JNum (- 114))] \<noteq> [(''lng'', JNum (- 114)), (''lat'', JNum 51)] \<and>
   buildKey integer_numstr ''calgary'' ''nearby'' [(''lat'', JNum 51), (''lng'', JNum (- 114))]
     = buildKey integer_numstr ''calgary'' ''nearby'' [(''lng'', JNum (- 114)), (''lat'', JNum 51)]"
  using buildKey_order_independent
    [of "[(''lat'', JNum 51), (''lng'', JNum (- 114))]" "[(''lng'', JNum (- 114)), (''lat'', JNum 51)]"
        integer_numstr "''calgary''" "''nearby''"]
  by auto

subsection \<open>Keys that differ, keys that collide\<close>

lemma hex_digit_inj: "a < 16 \<Longrightarrow> b < 16 \<Longrightarrow> hex_digit a = hex_digit b \<Longrightarrow> a = b"
proof -
  assume a: "a < 16" and b: "b < 16" and e: "hex_digit a = hex_digit b"
  have d: "distinct ''0123456789abcdef''" by simp
  have "''0123456789abcdef'' ! a = ''0123456789abcdef'' ! b"
    using e a b by (simp add: hex_digit_def)
  then show "a = b"
    using d a b by (simp add: nth_eq_iff_index_eq)
qed

lemma toString16_nonempty: "toString16 n \<noteq> []"
  by (subst toString16.simps) simp

lemma toString16_inj: "toString16 n = toString16 m \<Longrightarrow> n = m"
proof (induction n arbitrary: m rule: toString16.induct)
  case (1 n)
  show ?case
  proof (cases "n < 16")
    case True
    then have n: "toString16 n = [hex_digit n]" by (subst toString16.simps) simp
    show ?thesis
    proof (cases "m < 16")
      case True
      then have "toString16 m = [hex_digit m]" by (subst toString16.simps) simp
      with n "1.prems" have "hex_digit n = hex_digit m" by simp
      then show ?thesis using \<open>n < 16\<close> \<open>m < 16\<close> by (rule hex_digit_inj[rotated 2])
    next
      case False
      then have "toString16 m = toString16 (m div 16) @ [hex_digit (m mod 16)]"
        by (subst toString16.simps) simp
      with n "1.prems" have "toString16 (m div 16) = []" by simp
      then show ?thesis by (simp add: toString16_nonempty)
    qed
  next
    case False
    then have n: "toString16 n = toString16 (n div 16) @ [hex_digit (n mod 16)]"
      by (subst toString16.simps) simp
    show ?thesis
    proof (cases "m < 16")
      case True
      then have "toString16 m = [hex_digit m]" by (subst toString16.simps) simp
      with n "1.prems" have "toString16 (n div 16) = []" by simp
      then show ?thesis by (simp add: toString16_nonempty)
    next
      case mf: False
      then have "toString16 m = toString16 (m div 16) @ [hex_digit (m mod 16)]"
        by (subst toString16.simps) simp
      with n "1.prems" have e1: "toString16 (n div 16) = toString16 (m div 16)"
        and e2: "hex_digit (n mod 16) = hex_digit (m mod 16)" by simp_all
      from "1.IH"[OF False e1] have "n div 16 = m div 16" .
      moreover from e2 have "n mod 16 = m mod 16" by (intro hex_digit_inj) simp_all
      ultimately show ?thesis by (metis div_mult_mod_eq)
    qed
  qed
qed

lemma hex_digit_not_colon: "hex_digit d \<noteq> CHR '':''"
proof -
  have "d mod 16 < length ''0123456789abcdef''" by simp
  then have "hex_digit d \<in> set ''0123456789abcdef''"
    unfolding hex_digit_def by (rule nth_mem)
  then show ?thesis by auto
qed

lemma split_at_colon:
  assumes "CHR '':'' \<notin> set a" and "CHR '':'' \<notin> set b"
    and "a @ CHR '':'' # r = b @ CHR '':'' # t"
  shows "a = b \<and> r = t"
  using assms
proof (induction a arbitrary: b)
  case Nil
  then show ?case by (cases b) auto
next
  case (Cons x a)
  then show ?case by (cases b) auto
qed


lemma buildKey_shape:
  "buildKey numstr src endpoint params =
     src @ CHR '':'' # endpoint @ CHR '':'' # toString16 (unat (params_hash numstr params))"
  by (simp add: buildKey_def params_hash_def stable_text_def)

lemma toString16_no_colon: "CHR '':'' \<notin> set (toString16 n)"
proof (induction n rule: toString16.induct)
  case (1 n)
  show ?case
  proof (cases "n < 16")
    case True
    then show ?thesis by (subst toString16.simps) (simp add: hex_digit_not_colon[symmetric])
  next
    case False
    with 1 show ?thesis by (subst toString16.simps) (simp add: hex_digit_not_colon[symmetric])
  qed
qed

lemma step_33: "push_bit 5 h + h = (33 :: 32 word) * h"
  by (simp add: push_bit_eq_mult)

lemma times_33_inj: "(33 :: 32 word) * h = 33 * h' \<Longrightarrow> h = h'"
proof -
  assume e: "(33 :: 32 word) * h = 33 * h'"
  have i: "(1041204193 :: 32 word) * 33 = 1" by simp
  have "h = (1041204193 * 33) * h" by (simp only: i mult_1)
  also have "\<dots> = 1041204193 * (33 * h)" by (simp only: mult.assoc)
  also have "\<dots> = 1041204193 * (33 * h')" by (simp only: e)
  also have "\<dots> = (1041204193 * 33) * h'" by (simp only: mult.assoc)
  also have "\<dots> = h'" by (simp only: i mult_1)
  finally show ?thesis .
qed

lemma xor_same_left: "(x :: 32 word) XOR a = x XOR b \<Longrightarrow> a = b"
proof -
  assume "x XOR a = x XOR b"
  then have "x XOR (x XOR a) = x XOR (x XOR b)" by simp
  then show ?thesis by (simp add: xor.assoc[symmetric])
qed

lemma xor_same_right: "(a :: 32 word) XOR x = b XOR x \<Longrightarrow> a = b"
  using xor_same_left [of x a b] by (simp add: xor.commute)

lemma char_code_inj: "(of_nat (of_char a) :: 32 word) = of_nat (of_char b) \<Longrightarrow> a = b"
proof -
  assume e: "(of_nat (of_char a) :: 32 word) = of_nat (of_char b)"
  have small: "(of_char c :: nat) < 2 ^ 32" for c :: char
  proof -
    have "(of_char c :: nat) < 256" by simp
    moreover have "(256 :: nat) < 2 ^ 32" by simp
    ultimately show ?thesis by (rule less_trans)
  qed
  have "(of_char a :: nat) < 2 ^ 32" "(of_char b :: nat) < 2 ^ 32" by (rule small)+
  then have "take_bit 32 (of_char a :: nat) = of_char a" "take_bit 32 (of_char b :: nat) = of_char b"
    by (simp_all only: take_bit_nat_eq_self)
  with e have "(of_char a :: nat) = of_char b"
    by (simp add: word_of_nat_eq_iff)
  then show ?thesis by simp
qed

lemma hash_loop_append: "hash_loop h (xs @ ys) = hash_loop (hash_loop h xs) ys"
  by (induction xs arbitrary: h) simp_all

lemma hash_loop_inj_state: "hash_loop h s = hash_loop h' s \<Longrightarrow> h = h'"
proof (induction s arbitrary: h h')
  case Nil
  then show ?case by simp
next
  case (Cons c cs)
  from Cons.prems have "(push_bit 5 h + h) XOR of_nat (of_char c) = (push_bit 5 h' + h') XOR of_nat (of_char c)"
    by (auto dest: Cons.IH)
  then have "push_bit 5 h + h = push_bit 5 h' + h'" by (rule xor_same_right)
  then show ?case by (simp only: step_33 times_33_inj)
qed

lemma hash_loop_foldl:
  "hash_loop h s = foldl (\<lambda>hash c. (33 * hash) XOR of_nat (of_char c)) h s"
  by (induction s arbitrary: h) (simp_all add: step_33)

lemma one_character_never_collides:
  assumes "a \<noteq> b"
  shows "hash_loop h (pre @ a # suf) \<noteq> hash_loop h (pre @ b # suf)"
proof
  assume "hash_loop h (pre @ a # suf) = hash_loop h (pre @ b # suf)"
  then have "hash_loop ((push_bit 5 (hash_loop h pre) + hash_loop h pre) XOR of_nat (of_char a)) suf
      = hash_loop ((push_bit 5 (hash_loop h pre) + hash_loop h pre) XOR of_nat (of_char b)) suf"
    by (simp add: hash_loop_append)
  then have "(push_bit 5 (hash_loop h pre) + hash_loop h pre) XOR of_nat (of_char a)
      = (push_bit 5 (hash_loop h pre) + hash_loop h pre) XOR (of_nat (of_char b) :: 32 word)"
    by (rule hash_loop_inj_state)
  then have "(of_nat (of_char a) :: 32 word) = of_nat (of_char b)" by (rule xor_same_left)
  then have "a = b" by (rule char_code_inj)
  with assms show False by simp
qed

lemma join_comma_cons: "join_comma (x # ys) = x @ concat (map (\<lambda>s. '','' @ s) ys)"
  by (induction ys arbitrary: x) simp_all

lemma join_comma_middle:
  "join_comma (xs @ x # ys) = concat (map (\<lambda>s. s @ '','') xs) @ x @ concat (map (\<lambda>s. '','' @ s) ys)"
proof (induction xs)
  case Nil
  show ?case by (simp add: join_comma_cons)
next
  case (Cons z zs)
  then show ?case by (cases zs) (simp_all add: join_comma_cons)
qed


lemma map_filter_middle:
  "List.map_filter f (xs @ x # ys)
     = List.map_filter f xs @ (case f x of None \<Rightarrow> [] | Some y \<Rightarrow> [y]) @ List.map_filter f ys"
  by (simp add: List.map_filter_def split: option.splits)

lemma map_filter_agree:
  "(\<And>x. x \<in> set xs \<Longrightarrow> f x = g x) \<Longrightarrow> List.map_filter f xs = List.map_filter g xs"
  by (induction xs) (simp_all add: List.map_filter_def)

lemma stable_text_one_value:
  assumes dA: "distinct (map fst paramsA)" and dB: "distinct (map fst paramsB)"
    and kA: "map_of paramsA k = Some vA" and kB: "map_of paramsB k = Some vB"
    and others: "\<forall>j. j \<noteq> k \<longrightarrow> map_of paramsA j = map_of paramsB j"
    and sA: "SerializeJSONProperty numstr (sort (map fst paramsA)) vA = Some (p @ a # s)"
    and sB: "SerializeJSONProperty numstr (sort (map fst paramsA)) vB = Some (p @ b # s)"
  shows "\<exists>pre suf. stable_text numstr paramsA = pre @ a # suf \<and>
                    stable_text numstr paramsB = pre @ b # suf"
proof -
  let ?K = "sort (map fst paramsA)"
  have "dom (map_of paramsA) = dom (map_of paramsB)"
  proof (rule set_eqI)
    fix j show "j \<in> dom (map_of paramsA) \<longleftrightarrow> j \<in> dom (map_of paramsB)"
      using kA kB others by (cases "j = k") auto
  qed
  then have keys: "set (map fst paramsA) = set (map fst paramsB)"
    by (simp add: dom_map_of_conv_image_fst)
  have K: "sort (map fst paramsB) = ?K"
    using keys by (intro sorted_distinct_set_unique) (simp_all add: dA dB)
  have dK: "distinct ?K" using dA by simp
  have "k \<in> set ?K" using kA by (auto dest: map_of_SomeD intro: rev_image_eqI)
  then obtain K1 K2 where split: "?K = K1 @ k # K2" by (blast dest: split_list)
  with dK have notin: "k \<notin> set K1" "k \<notin> set K2" by (metis distinct_append distinct.simps(2) not_distinct_conv_prefix)+
  define render where "render = (\<lambda>params j.
      case map_of (map (\<lambda>q. (fst q, SerializeJSONProperty numstr ?K (snd q))) params) j of
        None \<Rightarrow> None
      | Some None \<Rightarrow> None
      | Some (Some t) \<Rightarrow> Some (QuoteJSONString j @ '':'' @ t))"
  have textA: "stable_text numstr paramsA = ''{'' @ join_comma (List.map_filter (render paramsA) ?K) @ ''}''"
    using dK by (simp add: stable_text_def JSON_stringify_def Object_keys_def render_def distinct_remdups_id)
  have textB: "stable_text numstr paramsB = ''{'' @ join_comma (List.map_filter (render paramsB) ?K) @ ''}''"
    using dK by (simp add: stable_text_def JSON_stringify_def Object_keys_def render_def K distinct_remdups_id)
  have same: "render paramsA j = render paramsB j" if "j \<noteq> k" for j
    using others that by (simp add: render_def map_of_rendered)
  have rA: "render paramsA k = Some (QuoteJSONString k @ '':'' @ p @ a # s)"
    using kA sA by (simp add: render_def map_of_rendered)
  have rB: "render paramsB k = Some (QuoteJSONString k @ '':'' @ p @ b # s)"
    using kB sB by (simp add: render_def map_of_rendered)
  have L1: "List.map_filter (render paramsA) K1 = List.map_filter (render paramsB) K1"
    using notin(1) by (intro map_filter_agree same) auto
  have L2: "List.map_filter (render paramsA) K2 = List.map_filter (render paramsB) K2"
    using notin(2) by (intro map_filter_agree same) auto
  let ?pre = "''{'' @ concat (map (\<lambda>s. s @ '','') (List.map_filter (render paramsB) K1))
      @ QuoteJSONString k @ '':'' @ p"
  let ?suf = "s @ concat (map (\<lambda>s. '','' @ s) (List.map_filter (render paramsB) K2)) @ ''}''"
  have "stable_text numstr paramsA = ?pre @ a # ?suf"
    unfolding textA split by (simp add: map_filter_middle rA L1 L2 join_comma_middle)
  moreover have "stable_text numstr paramsB = ?pre @ b # ?suf"
    unfolding textB split by (simp add: map_filter_middle rB join_comma_middle)
  ultimately show ?thesis by blast
qed


lemma buildKey_eq_iff_hash:
  "buildKey numstr src endpoint paramsA = buildKey numstr src endpoint paramsB \<longleftrightarrow>
      params_hash numstr paramsA = params_hash numstr paramsB"
  by (auto simp: buildKey_shape word_unat_eq_iff dest!: toString16_inj)

text \<open>
  C6, as amended. A key is \<open>source:endpoint:hash\<close>, where \<open>hash\<close> is the hexadecimal text of
  the 32-bit value obtained from 5381 by the step \<open>hash * 33 XOR code\<close> over the characters of
  the parameter map serialized with its keys sorted. Two calls that differ only in the source, or
  only in the operation, give different keys. Two calls with the same source and operation give
  different keys whenever their serialized parameter maps differ in exactly one character; in
  particular whenever the two parameter maps differ in the value of one key only and the texts of
  the two values differ in exactly one character. In general two such calls give the same key
  exactly when the 32-bit hashes are equal, and parameter maps whose texts differ in two or more
  characters can have the same hash. Calls that differ in the source or the operation, whatever
  their parameters, give different keys when no source and no operation contains a colon.
\<close>

theorem buildKey_differs:
  "(srcA \<noteq> srcB \<longrightarrow>
      buildKey numstr srcA endpoint params \<noteq> buildKey numstr srcB endpoint params) \<and>
   (endpointA \<noteq> endpointB \<longrightarrow>
      buildKey numstr src endpointA params \<noteq> buildKey numstr src endpointB params) \<and>
   buildKey numstr src endpoint params
     = src @ '':'' @ endpoint @ '':'' @
       toString16 (unat (foldl (\<lambda>hash c. (33 * hash) XOR of_nat (of_char c)) (5381 :: 32 word)
                           (stable_text numstr params))) \<and>
   (a \<noteq> b \<and> stable_text numstr paramsA = pre @ a # suf \<and>
    stable_text numstr paramsB = pre @ b # suf \<longrightarrow>
      buildKey numstr src endpoint paramsA \<noteq> buildKey numstr src endpoint paramsB) \<and>
   (a \<noteq> b \<and> distinct (map fst paramsA) \<and> distinct (map fst paramsB) \<and>
    map_of paramsA k = Some vA \<and> map_of paramsB k = Some vB \<and>
    (\<forall>j. j \<noteq> k \<longrightarrow> map_of paramsA j = map_of paramsB j) \<and>
    SerializeJSONProperty numstr (sort (map fst paramsA)) vA = Some (p @ a # s) \<and>
    SerializeJSONProperty numstr (sort (map fst paramsA)) vB = Some (p @ b # s) \<longrightarrow>
      buildKey numstr src endpoint paramsA \<noteq> buildKey numstr src endpoint paramsB) \<and>
   (buildKey numstr src endpoint paramsA = buildKey numstr src endpoint paramsB \<longleftrightarrow>
      params_hash numstr paramsA = params_hash numstr paramsB) \<and>
   (CHR '':'' \<notin> set srcA \<union> set endpointA \<union> set srcB \<union> set endpointB \<longrightarrow>
      srcA \<noteq> srcB \<or> endpointA \<noteq> endpointB \<longrightarrow>
      buildKey numstr srcA endpointA paramsA \<noteq> buildKey numstr srcB endpointB paramsB)"
proof (intro conjI impI)
  assume "srcA \<noteq> srcB"
  then show "buildKey numstr srcA endpoint params \<noteq> buildKey numstr srcB endpoint params"
    by (simp add: buildKey_shape)
next
  assume "endpointA \<noteq> endpointB"
  then show "buildKey numstr src endpointA params \<noteq> buildKey numstr src endpointB params"
    by (simp add: buildKey_shape)
next
  show "buildKey numstr src endpoint params
     = src @ '':'' @ endpoint @ '':'' @
       toString16 (unat (foldl (\<lambda>hash c. (33 * hash) XOR of_nat (of_char c)) (5381 :: 32 word)
                           (stable_text numstr params)))"
    by (simp add: buildKey_shape params_hash_def hash_loop_foldl)
next
  assume h: "a \<noteq> b \<and> stable_text numstr paramsA = pre @ a # suf \<and>
    stable_text numstr paramsB = pre @ b # suf"
  then have "params_hash numstr paramsA \<noteq> params_hash numstr paramsB"
    by (simp add: params_hash_def one_character_never_collides)
  then show "buildKey numstr src endpoint paramsA \<noteq> buildKey numstr src endpoint paramsB"
    by (simp add: buildKey_eq_iff_hash)
next
  assume h: "a \<noteq> b \<and> distinct (map fst paramsA) \<and> distinct (map fst paramsB) \<and>
    map_of paramsA k = Some vA \<and> map_of paramsB k = Some vB \<and>
    (\<forall>j. j \<noteq> k \<longrightarrow> map_of paramsA j = map_of paramsB j) \<and>
    SerializeJSONProperty numstr (sort (map fst paramsA)) vA = Some (p @ a # s) \<and>
    SerializeJSONProperty numstr (sort (map fst paramsA)) vB = Some (p @ b # s)"
  then obtain pre' suf' where "stable_text numstr paramsA = pre' @ a # suf'"
      "stable_text numstr paramsB = pre' @ b # suf'"
    using stable_text_one_value [of paramsA paramsB k vA vB numstr p a s b] by blast
  with h have "params_hash numstr paramsA \<noteq> params_hash numstr paramsB"
    by (simp add: params_hash_def one_character_never_collides)
  then show "buildKey numstr src endpoint paramsA \<noteq> buildKey numstr src endpoint paramsB"
    by (simp add: buildKey_eq_iff_hash)
next
  show "buildKey numstr src endpoint paramsA = buildKey numstr src endpoint paramsB \<longleftrightarrow>
      params_hash numstr paramsA = params_hash numstr paramsB"
    by (rule buildKey_eq_iff_hash)
next
  assume nc: "CHR '':'' \<notin> set srcA \<union> set endpointA \<union> set srcB \<union> set endpointB"
    and ne: "srcA \<noteq> srcB \<or> endpointA \<noteq> endpointB"
  show "buildKey numstr srcA endpointA paramsA \<noteq> buildKey numstr srcB endpointB paramsB"
  proof
    assume "buildKey numstr srcA endpointA paramsA = buildKey numstr srcB endpointB paramsB"
    then have e: "srcA @ CHR '':'' # (endpointA @ CHR '':'' # toString16 (unat (params_hash numstr paramsA)))
        = srcB @ CHR '':'' # (endpointB @ CHR '':'' # toString16 (unat (params_hash numstr paramsB)))"
      by (simp add: buildKey_shape)
    from nc have "CHR '':'' \<notin> set srcA" "CHR '':'' \<notin> set srcB" by simp_all
    from split_at_colon[OF this e] have s: "srcA = srcB"
      and e2: "endpointA @ CHR '':'' # toString16 (unat (params_hash numstr paramsA))
        = endpointB @ CHR '':'' # toString16 (unat (params_hash numstr paramsB))" by simp_all
    from nc have "CHR '':'' \<notin> set endpointA" "CHR '':'' \<notin> set endpointB" by simp_all
    from split_at_colon[OF this e2] have "endpointA = endpointB" by simp
    with s ne show False by simp
  qed
qed

lemma integer_numstr_100: "integer_numstr 100 = ''100''"
  by code_simp

lemma integer_numstr_200: "integer_numstr 200 = ''200''"
  by code_simp

theorem buildKey_differs_witness:
  "''calgary'' \<noteq> ''edmonton'' \<and>
   buildKey integer_numstr ''calgary'' ''bbox'' [(''limit'', JNum 100)]
     \<noteq> buildKey integer_numstr ''edmonton'' ''bbox'' [(''limit'', JNum 100)] \<and>
   CHR ''1'' \<noteq> CHR ''2'' \<and>
   map_of [(''limit'', JNum 100)] ''limit'' = Some (JNum 100) \<and>
   map_of [(''limit'', JNum 200)] ''limit'' = Some (JNum 200) \<and>
   SerializeJSONProperty integer_numstr (sort (map fst [(''limit'', JNum 100)])) (JNum 100)
     = Some ([] @ CHR ''1'' # ''00'') \<and>
   SerializeJSONProperty integer_numstr (sort (map fst [(''limit'', JNum 100)])) (JNum 200)
     = Some ([] @ CHR ''2'' # ''00'') \<and>
   buildKey integer_numstr ''calgary'' ''bbox'' [(''limit'', JNum 100)]
     \<noteq> buildKey integer_numstr ''calgary'' ''bbox'' [(''limit'', JNum 200)]"
proof -
  have 1: "buildKey integer_numstr ''calgary'' ''bbox'' [(''limit'', JNum 100)]
     \<noteq> buildKey integer_numstr ''edmonton'' ''bbox'' [(''limit'', JNum 100)]"
    using buildKey_differs [where srcA = "''calgary''" and srcB = "''edmonton''"
        and numstr = integer_numstr and endpoint = "''bbox''" and params = "[(''limit'', JNum 100)]",
        THEN conjunct1]
    by simp
  have 2: "buildKey integer_numstr ''calgary'' ''bbox'' [(''limit'', JNum 100)]
     \<noteq> buildKey integer_numstr ''calgary'' ''bbox'' [(''limit'', JNum 200)]"
    using buildKey_differs [where numstr = integer_numstr and src = "''calgary''"
        and endpoint = "''bbox''"
        and paramsA = "[(''limit'', JNum 100)]" and paramsB = "[(''limit'', JNum 200)]"
        and k = "''limit''" and vA = "JNum 100" and vB = "JNum 200"
        and a = "CHR ''1''" and b = "CHR ''2''" and p = "[]" and s = "''00''",
        THEN conjunct2, THEN conjunct2, THEN conjunct2, THEN conjunct2, THEN conjunct1]
    by (simp add: integer_numstr_100 integer_numstr_200)
  show ?thesis
    using 1 2 by (simp add: integer_numstr_100 integer_numstr_200)
qed

lemma stringify_b1:
  "JSON_stringify integer_numstr (JObj [(''area'', JStr ''b1''), (''limit'', JNum 100)])
     (sort (Object_keys [(''area'', JStr ''b1''), (''limit'', JNum 100)]))
   = Some ''{\"area\":\"b1\",\"limit\":100}''"
  by code_simp

lemma stringify_cP:
  "JSON_stringify integer_numstr (JObj [(''area'', JStr ''cP''), (''limit'', JNum 100)])
     (sort (Object_keys [(''area'', JStr ''cP''), (''limit'', JNum 100)]))
   = Some ''{\"area\":\"cP\",\"limit\":100}''"
  by code_simp

lemma stable_b1: "stable_text integer_numstr [(''area'', JStr ''b1''), (''limit'', JNum 100)]
    = ''{\"area\":\"b1\",\"limit\":100}''"
  by (simp only: stable_text_def stringify_b1 option.case)

lemma stable_cP: "stable_text integer_numstr [(''area'', JStr ''cP''), (''limit'', JNum 100)]
    = ''{\"area\":\"cP\",\"limit\":100}''"
  by (simp only: stable_text_def stringify_cP option.case)

lemma hash_b1: "hash_loop 5381 ''{\"area\":\"b1\",\"limit\":100}'' = 0xb68dc40f"
  by code_simp

lemma hash_cP: "hash_loop 5381 ''{\"area\":\"cP\",\"limit\":100}'' = 0xb68dc40f"
  by code_simp

lemma hex_b68dc40f: "toString16 3062744079 = ''b68dc40f''"
  by (simp add: toString16.simps hex_digit_def)

text \<open>
  The claim C6 as it is stated fails: the requests \<open>/categories?area=b1\<close> and
  \<open>/categories?area=cP\<close> (limit 100) have the same source and operation and differ in the
  value of \<open>area\<close>, and they get the same key.
\<close>

theorem buildKey_collision_counterexample:
  "JStr ''b1'' \<noteq> JStr ''cP'' \<and>
   buildKey integer_numstr ''calgary'' ''categories'' [(''area'', JStr ''b1''), (''limit'', JNum 100)]
     = ''calgary:categories:b68dc40f'' \<and>
   buildKey integer_numstr ''calgary'' ''categories'' [(''area'', JStr ''cP''), (''limit'', JNum 100)]
     = ''calgary:categories:b68dc40f''"
  by (simp add: buildKey_shape params_hash_def stable_b1 stable_cP hash_b1 hash_cP hex_b68dc40f)

section \<open>Properties of the adapter\<close>

subsection \<open>Retries\<close>


lemma client_get_attempts:
  assumes "retryCount \<le> retries"
  shows "\<exists>n. 1 \<le> n \<and> n \<le> retries + 1 - retryCount \<and>
     snd (client_get up params retryCount w)
       = w\<lparr>sent := sent w @ replicate n params,
            waited := waited w @ [Suc retryCount ..< retryCount + n]\<rparr> \<and>
     fst (client_get up params retryCount w) = up (length (sent w) + n - 1) params \<and>
     (\<forall>j. j < n - 1 \<longrightarrow> (\<exists>e. up (length (sent w) + j) params = Inl e \<and> retryCondition e)) \<and>
     (n < retries + 1 - retryCount \<longrightarrow>
        (\<forall>e. up (length (sent w) + n - 1) params = Inl e \<longrightarrow> \<not> retryCondition e))"
  using assms
proof (induction up params retryCount w rule: client_get.induct)
  case (1 up params retryCount w)
  let ?w1 = "w\<lparr>sent := sent w @ [params]\<rparr>"
  let ?w2 = "w\<lparr>sent := sent w @ [params], waited := waited w @ [Suc retryCount]\<rparr>"
  show ?case
  proof (cases "up (length (sent w)) params")
    case (Inr data)
    then have "client_get up params retryCount w = (Inr data, ?w1)"
      by (subst client_get.simps) simp
    with Inr "1.prems" show ?thesis
      by (intro exI[of _ 1]) auto
  next
    case (Inl err)
    show ?thesis
    proof (cases "retryCount < retries \<and> retryCondition err")
      case False
      then have "client_get up params retryCount w = (Inl err, ?w1)"
        using Inl by (subst client_get.simps) auto
      with Inl False "1.prems" show ?thesis
        by (intro exI[of _ 1]) auto
    next
      case True
      then have eq: "client_get up params retryCount w = client_get up params (Suc retryCount) ?w2"
        using Inl by (subst client_get.simps) simp
      from True have "Suc retryCount \<le> retries" by simp
      from "1.IH"[OF Inl True this] obtain n where n: "1 \<le> n" "n \<le> retries + 1 - Suc retryCount"
        "snd (client_get up params (Suc retryCount) ?w2)
           = ?w2\<lparr>sent := sent ?w2 @ replicate n params,
                  waited := waited ?w2 @ [Suc (Suc retryCount) ..< Suc retryCount + n]\<rparr>"
        "fst (client_get up params (Suc retryCount) ?w2) = up (length (sent ?w2) + n - 1) params"
        "\<forall>j. j < n - 1 \<longrightarrow> (\<exists>e. up (length (sent ?w2) + j) params = Inl e \<and> retryCondition e)"
        "n < retries + 1 - Suc retryCount \<longrightarrow>
           (\<forall>e. up (length (sent ?w2) + n - 1) params = Inl e \<longrightarrow> \<not> retryCondition e)"
        by blast
      have a: "\<forall>j. j < Suc n - 1 \<longrightarrow> (\<exists>e. up (length (sent w) + j) params = Inl e \<and> retryCondition e)"
      proof (intro allI impI)
        fix j assume j: "j < Suc n - 1"
        show "\<exists>e. up (length (sent w) + j) params = Inl e \<and> retryCondition e"
        proof (cases j)
          case 0
          with Inl True show ?thesis by simp
        next
          case (Suc i)
          with j have "i < n - 1" by simp
          with n(5) have "\<exists>e. up (length (sent ?w2) + i) params = Inl e \<and> retryCondition e" by blast
          with Suc show ?thesis by simp
        qed
      qed
      have u: "[Suc retryCount] @ [Suc (Suc retryCount) ..< Suc retryCount + n]
          = [Suc retryCount ..< retryCount + Suc n]"
        using n(1) by (simp add: upt_conv_Cons)
      show ?thesis
        apply (rule exI[of _ "Suc n"])
        using n(1,2,3,4,6) a True u
        by (simp add: eq replicate_app_Cons_same)
    qed
  qed
qed




lemma client_get_always_500_any:
  "client_get upstream_always_500 params 0 w
     = (Inl (HttpError 500),
        w\<lparr>sent := sent w @ replicate 4 params, waited := waited w @ [1, 2, 3]\<rparr>)"
  by (simp add: client_get.simps upstream_always_500_def retries_def retryCondition_def
      numeral_eq_Suc)

lemma client_get_always_500:
  "client_get upstream_always_500 sample_params 0 world0
     = (Inl (HttpError 500), world0\<lparr>sent := replicate 4 sample_params, waited := [1, 2, 3]\<rparr>)"
  by (simp add: client_get_always_500_any world0_def)



subsection \<open>Normalization and the bounding-box query\<close>

lemma toBusinessRecord_fields:
  "raw_payload (fst (toBusinessRecord randomUUID r w)) = Some r \<and>
   lat (fst (toBusinessRecord randomUUID r w))
     = (case point r of None \<Rightarrow> None | Some pt \<Rightarrow> map_option snd (coordinates pt)) \<and>
   lng (fst (toBusinessRecord randomUUID r w))
     = (case point r of None \<Rightarrow> None | Some pt \<Rightarrow> map_option fst (coordinates pt)) \<and>
   sent (snd (toBusinessRecord randomUUID r w)) = sent w"
  by (simp add: toBusinessRecord_def split: option.splits prod.splits)

lemma map_toBusinessRecord_pointwise:
  "list_all2 (\<lambda>r b. raw_payload b = Some r \<and>
       lat b = (case point r of None \<Rightarrow> None | Some pt \<Rightarrow> map_option snd (coordinates pt)) \<and>
       lng b = (case point r of None \<Rightarrow> None | Some pt \<Rightarrow> map_option fst (coordinates pt)))
     data (fst (map_toBusinessRecord randomUUID data w)) \<and>
   sent (snd (map_toBusinessRecord randomUUID data w)) = sent w"
proof (induction data arbitrary: w)
  case Nil
  show ?case by simp
next
  case (Cons r rs)
  obtain b w1 where b: "toBusinessRecord randomUUID r w = (b, w1)" by (cases "toBusinessRecord randomUUID r w")
  obtain bs w2 where bs: "map_toBusinessRecord randomUUID rs w1 = (bs, w2)"
    by (cases "map_toBusinessRecord randomUUID rs w1")
  from toBusinessRecord_fields[of randomUUID r w] b
  have hd: "raw_payload b = Some r"
    "lat b = (case point r of None \<Rightarrow> None | Some pt \<Rightarrow> map_option snd (coordinates pt))"
    "lng b = (case point r of None \<Rightarrow> None | Some pt \<Rightarrow> map_option fst (coordinates pt))"
    "sent w1 = sent w" by simp_all
  from Cons.IH[of w1] bs hd(4) show ?case
    by (simp add: b hd(1,2,3))
qed

text \<open>
  C9. Whenever the request of \<open>fetchByBoundingBox\<close> is answered with the records \<open>data\<close>,
  \<open>fetchByBoundingBox\<close> returns one business record for each of them, in the same order: the
  \<open>i\<close>-th business record carries the \<open>i\<close>-th record as its raw payload; if that record has
  no point, or a point without coordinates, both \<open>lat\<close> and \<open>lng\<close> are absent, and the record
  is not dropped; if it has coordinates \<open>[c0, c1]\<close>, then \<open>lng\<close> is \<open>c0\<close> and \<open>lat\<close> is
  \<open>c1\<close>.
\<close>

theorem fetchByBoundingBox_passes_every_record:
  assumes "client_get up
             \<lparr> where_param = PointNotNullWithinBox (north bbox) (west bbox) (south bbox) (east bbox),
               limit_param = (case pageLimit of None \<Rightarrow> SOCRATA_PAGE_LIMIT | Some l \<Rightarrow> l),
               order_param = ''FIRST_ISS_DT DESC'' \<rparr> 0 w = (Inr data, w1)"
  shows "\<exists>records w2. fetchByBoundingBox up randomUUID bbox pageLimit w = (Inr records, w2) \<and>
     length records = length data \<and>
     (\<forall>i. i < length data \<longrightarrow>
        raw_payload (records ! i) = Some (data ! i) \<and>
        (point (data ! i) = None \<or> (\<exists>pt. point (data ! i) = Some pt \<and> coordinates pt = None)
           \<longrightarrow> lat (records ! i) = None \<and> lng (records ! i) = None) \<and>
        (\<forall>pt c0 c1. point (data ! i) = Some pt \<and> coordinates pt = Some (c0, c1)
           \<longrightarrow> lng (records ! i) = Some c0 \<and> lat (records ! i) = Some c1))"
proof -
  obtain records w2 where m: "map_toBusinessRecord randomUUID data w1 = (records, w2)"
    by (cases "map_toBusinessRecord randomUUID data w1")
  have f: "fetchByBoundingBox up randomUUID bbox pageLimit w = (Inr records, w2)"
    using assms m by (simp add: fetchByBoundingBox_def)
  from map_toBusinessRecord_pointwise[where randomUUID=randomUUID and data=data and w=w1] m
  have l: "list_all2 (\<lambda>r b. raw_payload b = Some r \<and>
       lat b = (case point r of None \<Rightarrow> None | Some pt \<Rightarrow> map_option snd (coordinates pt)) \<and>
       lng b = (case point r of None \<Rightarrow> None | Some pt \<Rightarrow> map_option fst (coordinates pt)))
     data records" by simp
  then have len: "length records = length data" by (simp add: list_all2_lengthD)
  have "\<forall>i. i < length data \<longrightarrow>
        raw_payload (records ! i) = Some (data ! i) \<and>
        (point (data ! i) = None \<or> (\<exists>pt. point (data ! i) = Some pt \<and> coordinates pt = None)
           \<longrightarrow> lat (records ! i) = None \<and> lng (records ! i) = None) \<and>
        (\<forall>pt c0 c1. point (data ! i) = Some pt \<and> coordinates pt = Some (c0, c1)
           \<longrightarrow> lng (records ! i) = Some c0 \<and> lat (records ! i) = Some c1)"
  proof (intro allI impI)
    fix i assume "i < length data"
    with l have "raw_payload (records ! i) = Some (data ! i) \<and>
       lat (records ! i) = (case point (data ! i) of None \<Rightarrow> None | Some pt \<Rightarrow> map_option snd (coordinates pt)) \<and>
       lng (records ! i) = (case point (data ! i) of None \<Rightarrow> None | Some pt \<Rightarrow> map_option fst (coordinates pt))"
      by (simp add: list_all2_conv_all_nth)
    then show "raw_payload (records ! i) = Some (data ! i) \<and>
        (point (data ! i) = None \<or> (\<exists>pt. point (data ! i) = Some pt \<and> coordinates pt = None)
           \<longrightarrow> lat (records ! i) = None \<and> lng (records ! i) = None) \<and>
        (\<forall>pt c0 c1. point (data ! i) = Some pt \<and> coordinates pt = Some (c0, c1)
           \<longrightarrow> lng (records ! i) = Some c0 \<and> lat (records ! i) = Some c1)"
      by auto
  qed
  with f len show ?thesis by blast
qed


lemma client_get_two_records:
  "client_get upstream_two_records
     \<lparr> where_param = PointNotNullWithinBox (north sample_bbox) (west sample_bbox) (south sample_bbox) (east sample_bbox),
       limit_param = (case Some 500 of None \<Rightarrow> SOCRATA_PAGE_LIMIT | Some l \<Rightarrow> l),
       order_param = ''FIRST_ISS_DT DESC'' \<rparr> 0 world0
   = (Inr [record_at_query_point, record_without_point], world0\<lparr>sent := [sample_params]\<rparr>)"
  by (simp add: client_get.simps upstream_two_records_def world0_def sample_params_def sample_bbox_def)

theorem fetchByBoundingBox_passes_every_record_witness:
  "client_get upstream_two_records
     \<lparr> where_param = PointNotNullWithinBox (north sample_bbox) (west sample_bbox) (south sample_bbox) (east sample_bbox),
       limit_param = (case Some 500 of None \<Rightarrow> SOCRATA_PAGE_LIMIT | Some l \<Rightarrow> l),
       order_param = ''FIRST_ISS_DT DESC'' \<rparr> 0 world0
     = (Inr [record_at_query_point, record_without_point], world0\<lparr>sent := [sample_params]\<rparr>) \<and>
   (\<exists>records w2. fetchByBoundingBox upstream_two_records sample_uuid sample_bbox (Some 500) world0
        = (Inr records, w2) \<and>
      length records = 2 \<and>
      raw_payload (records ! 1) = Some record_without_point \<and>
      lat (records ! 1) = None \<and> lng (records ! 1) = None)"
proof -
  from fetchByBoundingBox_passes_every_record [OF client_get_two_records, of sample_uuid]
  obtain records w2 where
    f: "fetchByBoundingBox upstream_two_records sample_uuid sample_bbox (Some 500) world0 = (Inr records, w2)"
    and len: "length records = length [record_at_query_point, record_without_point]"
    and each: "\<forall>i. i < length [record_at_query_point, record_without_point] \<longrightarrow>
        raw_payload (records ! i) = Some ([record_at_query_point, record_without_point] ! i) \<and>
        (point ([record_at_query_point, record_without_point] ! i) = None \<or>
           (\<exists>pt. point ([record_at_query_point, record_without_point] ! i) = Some pt \<and> coordinates pt = None)
           \<longrightarrow> lat (records ! i) = None \<and> lng (records ! i) = None) \<and>
        (\<forall>pt c0 c1. point ([record_at_query_point, record_without_point] ! i) = Some pt \<and>
             coordinates pt = Some (c0, c1)
           \<longrightarrow> lng (records ! i) = Some c0 \<and> lat (records ! i) = Some c1)"
    by blast
  from each have "raw_payload (records ! 1) = Some record_without_point \<and>
      lat (records ! 1) = None \<and> lng (records ! 1) = None"
    by (simp add: record_without_point_def)
  with f len client_get_two_records show ?thesis by simp
qed





lemma fetchByBoundingBox_sent:
  "\<exists>n. 1 \<le> n \<and> n \<le> 4 \<and>
     sent (snd (fetchByBoundingBox up randomUUID bbox pageLimit w))
       = sent w @ replicate n
           \<lparr> where_param = PointNotNullWithinBox (north bbox) (west bbox) (south bbox) (east bbox),
             limit_param = (case pageLimit of None \<Rightarrow> SOCRATA_PAGE_LIMIT | Some l \<Rightarrow> l),
             order_param = ''FIRST_ISS_DT DESC'' \<rparr>"
proof -
  let ?p = "\<lparr> where_param = PointNotNullWithinBox (north bbox) (west bbox) (south bbox) (east bbox),
             limit_param = (case pageLimit of None \<Rightarrow> SOCRATA_PAGE_LIMIT | Some l \<Rightarrow> l),
             order_param = ''FIRST_ISS_DT DESC'' \<rparr>"
  have "0 \<le> retries" by simp
  from client_get_attempts[OF this, of up ?p w]
  obtain n where n: "1 \<le> n" "n \<le> 4"
    "snd (client_get up ?p 0 w) = w\<lparr>sent := sent w @ replicate n ?p, waited := waited w @ [1 ..< n]\<rparr>"
    by (auto simp: retries_def)
  obtain res w1 where c: "client_get up ?p 0 w = (res, w1)" by (cases "client_get up ?p 0 w")
  with n(3) have w1: "sent w1 = sent w @ replicate n ?p" by simp
  have "sent (snd (fetchByBoundingBox up randomUUID bbox pageLimit w)) = sent w1"
  proof (cases res)
    case (Inl e)
    with c show ?thesis by (simp add: fetchByBoundingBox_def)
  next
    case (Inr data)
    with c map_toBusinessRecord_pointwise[where randomUUID=randomUUID and data=data and w=w1]
    show ?thesis by (auto simp: fetchByBoundingBox_def split: prod.splits)
  qed
  with w1 n(1,2) show ?thesis by auto
qed

text \<open>
  C3. At a latitude whose cosine is not zero (every latitude strictly between the poles), and
  with \<open>requested\<close> the limit of the query (1000 when absent), \<open>fetchByRadius\<close> is the
  Haversine filter and the truncation applied to the result of \<open>fetchByBoundingBox\<close> on the box
  with latitude edges \<open>lat \<plusminus> radiusMetres / 111320\<close> and longitude edges
  \<open>lng \<plusminus> (radiusMetres / 111320) / cos (lat * pi / 180)\<close> and the limit
  \<open>requested * 2\<close>; and each of the one to four requests that it sends to the dataset names this
  box and this limit.
\<close>

theorem fetchByRadius_bounding_box:
  assumes "cos ((q_lat query * pi) / 180) \<noteq> 0"
  shows "let requested = (case q_limit query of None \<Rightarrow> SOCRATA_PAGE_LIMIT | Some l \<Rightarrow> l);
       degreeOffset = radiusMetres query / 111320;
       bbox = \<lparr> north = q_lat query + degreeOffset,
                south = q_lat query - degreeOffset,
                east = q_lng query + degreeOffset / cos ((q_lat query * pi) / 180),
                west = q_lng query - degreeOffset / cos ((q_lat query * pi) / 180) \<rparr>
   in fetchByRadius up randomUUID query w
        = (case fetchByBoundingBox up randomUUID bbox (Some (requested * 2)) w of
             (Inl err, w1) \<Rightarrow> (Inl err, w1)
           | (Inr records, w1) \<Rightarrow>
               (Inr (Array_slice (filter (within_radius (q_lat query) (q_lng query) (radiusMetres query))
                              records) 0 requested), w1)) \<and>
      (\<exists>n. 1 \<le> n \<and> n \<le> 4 \<and>
         sent (snd (fetchByRadius up randomUUID query w))
           = sent w @ replicate n
               \<lparr> where_param = PointNotNullWithinBox (north bbox) (west bbox) (south bbox) (east bbox),
                 limit_param = requested * 2,
                 order_param = ''FIRST_ISS_DT DESC'' \<rparr>)"
proof -
  let ?requested = "case q_limit query of None \<Rightarrow> SOCRATA_PAGE_LIMIT | Some l \<Rightarrow> l"
  let ?bbox = "\<lparr> north = q_lat query + radiusMetres query / 111320,
                south = q_lat query - radiusMetres query / 111320,
                east = q_lng query + radiusMetres query / 111320 / cos ((q_lat query * pi) / 180),
                west = q_lng query - radiusMetres query / 111320 / cos ((q_lat query * pi) / 180) \<rparr>"
  have eq: "fetchByRadius up randomUUID query w
        = (case fetchByBoundingBox up randomUUID ?bbox (Some (?requested * 2)) w of
             (Inl err, w1) \<Rightarrow> (Inl err, w1)
           | (Inr records, w1) \<Rightarrow>
               (Inr (Array_slice (filter (within_radius (q_lat query) (q_lng query) (radiusMetres query))
                              records) 0 ?requested), w1))"
    unfolding fetchByRadius_def Let_def by (rule refl)
  have s: "sent (snd (fetchByRadius up randomUUID query w))
      = sent (snd (fetchByBoundingBox up randomUUID ?bbox (Some (?requested * 2)) w))"
    unfolding eq by (simp split: prod.splits sum.splits)
  from fetchByBoundingBox_sent[of up randomUUID ?bbox "Some (?requested * 2)" w]
  have "\<exists>n. 1 \<le> n \<and> n \<le> 4 \<and>
         sent (snd (fetchByRadius up randomUUID query w))
           = sent w @ replicate n
               \<lparr> where_param = PointNotNullWithinBox (north ?bbox) (west ?bbox) (south ?bbox) (east ?bbox),
                 limit_param = ?requested * 2,
                 order_param = ''FIRST_ISS_DT DESC'' \<rparr>"
    unfolding s by simp
  with eq show ?thesis
    unfolding Let_def by (intro conjI)
qed

lemma cos_sample_latitude: "cos ((q_lat sample_query * pi) / 180) \<noteq> 0"
proof -
  have "- (pi / 2) < (q_lat sample_query * pi) / 180" "(q_lat sample_query * pi) / 180 < pi / 2"
    using pi_gt_zero by (simp_all add: sample_query_def)
  then have "0 < cos ((q_lat sample_query * pi) / 180)"
    by (rule cos_gt_zero_pi)
  then show ?thesis by simp
qed

theorem fetchByRadius_bounding_box_witness:
  "cos ((q_lat sample_query * pi) / 180) \<noteq> 0 \<and>
   (\<exists>n. 1 \<le> n \<and> n \<le> 4 \<and>
     sent (snd (fetchByRadius upstream_two_records sample_uuid sample_query world0))
       = replicate n
           \<lparr> where_param = PointNotNullWithinBox
               (510447 / 10000 + 1000 / 111320)
               (- 1140719 / 10000 - 1000 / 111320 / cos ((510447 / 10000 * pi) / 180))
               (510447 / 10000 - 1000 / 111320)
               (- 1140719 / 10000 + 1000 / 111320 / cos ((510447 / 10000 * pi) / 180)),
             limit_param = 500 * 2,
             order_param = ''FIRST_ISS_DT DESC'' \<rparr>)"
  using cos_sample_latitude fetchByRadius_bounding_box
    [OF cos_sample_latitude, of upstream_two_records sample_uuid world0, unfolded Let_def, THEN conjunct2]
  by (simp add: sample_query_def world0_def)

subsection \<open>The radius query\<close>




















section \<open>Properties of the cache service\<close>

text \<open>
  C7, as amended. \<open>CacheService.get\<close>, \<open>set\<close> and \<open>invalidate\<close> never raise to their
  caller, whatever the backend, \<open>JSON.parse\<close> and \<open>JSON.stringify\<close> do. When the operation of
  the backend throws, \<open>get\<close> returns \<open>null\<close>, and \<open>set\<close> and \<open>invalidate\<close> complete with a
  warning written to the console (\<open>set\<close> also when the value cannot be serialized). When the
  stored text does not parse, \<open>get\<close> returns \<open>null\<close>, exactly as for a key that is missing.
  When the Redis backend has no client or is not ready, \<open>get\<close> returns \<open>null\<close>, and \<open>set\<close>
  and \<open>invalidate\<close> complete and change nothing: the backend is not touched and no warning
  is written.
\<close>

theorem CacheService_never_raises:
  fixes backend :: "'b CacheBackend" and w :: "'b world"
    and io :: "'c Redis" and rw :: "'c RedisBackend_state world"
    and JSON_stringify_value :: "'v \<Rightarrow> exn + string"
  shows
  "(\<exists>v w1. CacheService_get backend JSON_parse key w = (Inr v, w1)) \<and>
   (\<exists>w1. CacheService_set backend JSON_stringify_value ttl key val ttlSeconds w = (Inr (), w1)) \<and>
   (\<exists>w1. CacheService_invalidate backend key w = (Inr (), w1)) \<and>
   (backend_get backend key (cache w) = (Inl err, c) \<longrightarrow>
      CacheService_get backend JSON_parse key w = (Inr JNull, w\<lparr>cache := c\<rparr>)) \<and>
   (backend_get backend key (cache w) = (Inr None, c) \<longrightarrow>
      CacheService_get backend JSON_parse key w = (Inr JNull, w\<lparr>cache := c\<rparr>)) \<and>
   (backend_get backend key (cache w) = (Inr (Some rawText), c) \<and> JSON_parse rawText = Inl err \<longrightarrow>
      CacheService_get backend JSON_parse key w = (Inr JNull, w\<lparr>cache := c\<rparr>)) \<and>
   (JSON_stringify_value val = Inl err \<longrightarrow>
      CacheService_set backend JSON_stringify_value ttl key val ttlSeconds w
        = (Inr (), w\<lparr>console := console w @ [(Warn, ''CacheService.set failed:'')]\<rparr>)) \<and>
   (JSON_stringify_value val = Inr text \<and>
    backend_set backend key text (case ttlSeconds of None \<Rightarrow> ttl | Some t \<Rightarrow> t) (cache w) = (Inl err, c) \<longrightarrow>
      CacheService_set backend JSON_stringify_value ttl key val ttlSeconds w
        = (Inr (), w\<lparr>cache := c, console := console w @ [(Warn, ''CacheService.set failed:'')]\<rparr>)) \<and>
   (backend_del backend key (cache w) = (Inl err, c) \<longrightarrow>
      CacheService_invalidate backend key w
        = (Inr (), w\<lparr>cache := c, console := console w @ [(Warn, ''CacheService.invalidate failed:'')]\<rparr>)) \<and>
   (client (cache rw) = None \<or> \<not> ready (cache rw) \<longrightarrow>
      CacheService_get (RedisBackend io) JSON_parse key rw = (Inr JNull, rw) \<and>
      (JSON_stringify_value val = Inr text \<longrightarrow>
         CacheService_set (RedisBackend io) JSON_stringify_value ttl key val ttlSeconds rw = (Inr (), rw)) \<and>
      CacheService_invalidate (RedisBackend io) key rw = (Inr (), rw))"
proof (intro conjI)
  show "\<exists>v w1. CacheService_get backend JSON_parse key w = (Inr v, w1)"
    by (auto simp: CacheService_get_def try_catch_def split: prod.splits sum.splits option.splits)
  show "\<exists>w1. CacheService_set backend JSON_stringify_value ttl key val ttlSeconds w = (Inr (), w1)"
    by (auto simp: CacheService_set_def try_catch_def split: prod.splits sum.splits option.splits)
  show "\<exists>w1. CacheService_invalidate backend key w = (Inr (), w1)"
    by (auto simp: CacheService_invalidate_def try_catch_def split: prod.splits sum.splits)
  show "client (cache rw) = None \<or> \<not> ready (cache rw) \<longrightarrow>
      CacheService_get (RedisBackend io) JSON_parse key rw = (Inr JNull, rw) \<and>
      (JSON_stringify_value val = Inr text \<longrightarrow>
         CacheService_set (RedisBackend io) JSON_stringify_value ttl key val ttlSeconds rw = (Inr (), rw)) \<and>
      CacheService_invalidate (RedisBackend io) key rw = (Inr (), rw)"
    by (auto simp: CacheService_get_def CacheService_set_def CacheService_invalidate_def try_catch_def
        RedisBackend_def split: option.splits)
qed (simp_all add: CacheService_get_def CacheService_set_def CacheService_invalidate_def try_catch_def)


theorem CacheService_never_raises_witness:
  "backend_get (RedisBackend failing_redis) ''k'' (cache redis_ready)
     = (Inl (Thrown ''Connection is closed.''), cache redis_ready) \<and>
   CacheService_get (RedisBackend failing_redis) parse_throws ''k'' redis_ready = (Inr JNull, redis_ready) \<and>
   backend_del (RedisBackend failing_redis) ''k'' (cache redis_ready)
     = (Inl (Thrown ''Connection is closed.''), cache redis_ready) \<and>
   CacheService_invalidate (RedisBackend failing_redis) ''k'' redis_ready
     = (Inr (), redis_ready\<lparr>console := [(Warn, ''CacheService.invalidate failed:'')]\<rparr>) \<and>
   \<not> ready (cache redis_not_ready) \<and>
   CacheService_get (RedisBackend failing_redis) parse_throws ''k'' redis_not_ready
     = (Inr JNull, redis_not_ready)"
  using CacheService_never_raises
      [of "RedisBackend failing_redis" parse_throws "''k''" redis_ready stringify_text 3600 JNull None
          "Thrown ''Connection is closed.''" "cache redis_ready" _ _ redis_not_ready failing_redis]
  by (simp add: RedisBackend_def failing_redis_def redis_ready_def redis_not_ready_def)

text \<open>
  The claim C7 as it is stated fails in the recorded warning: with a Redis backend that is not
  ready, \<open>set\<close> and \<open>invalidate\<close> return without a warning, and the console stays empty.
\<close>

theorem set_without_warning_counterexample:
  "\<not> ready (cache redis_not_ready) \<and>
   CacheService_set (RedisBackend failing_redis) stringify_text 3600 ''k'' JNull None redis_not_ready
     = (Inr (), redis_not_ready) \<and>
   CacheService_invalidate (RedisBackend failing_redis) ''k'' redis_not_ready = (Inr (), redis_not_ready) \<and>
   console redis_not_ready = []"
  by (simp add: CacheService_set_def CacheService_invalidate_def try_catch_def RedisBackend_def
      redis_not_ready_def stringify_text_def)

section \<open>Properties of the routes\<close>

text \<open>
  C8. For a query that passed validation, when the cache lookup returns nothing (a value that
  is not truthy) and the call of the adapter then fails, each of the handlers
  \<open>GET /api/v1/businesses\<close>, \<open>GET /api/v1/businesses/nearby\<close> and
  \<open>GET /api/v1/staff/businesses\<close> responds with status 502 and the error body
  \<open>Upstream data source unavailable\<close>, which is not an array of records, and writes the error
  to the console.
\<close>

theorem upstream_failure_gives_502:
  fixes env :: "'b server_env" and w :: "'b world"
  shows
  "(CacheService_get (env_backend env) (env_JSON_parse env)
        (buildKey (env_numstr env) ''calgary'' ''bbox''
           [(''north'', JNum (north q)), (''south'', JNum (south q)), (''east'', JNum (east q)),
            (''west'', JNum (west q)), (''limit'', JNum (limit q))]) w = (Inr cached, w1) \<and>
    \<not> truthy cached \<and>
    fetchByBoundingBox (env_upstream env) (env_randomUUID env)
        \<lparr> north = north q, south = south q, east = east q, west = west q \<rparr> (Some (limit q)) w1
      = (Inl err, w2) \<longrightarrow>
    get_businesses env (Inr q) w
      = (Inr \<lparr> statusCode = 502, x_cache = None, body = ErrorBody ''Upstream data source unavailable'' \<rparr>,
         w2\<lparr>console := console w2 @ [(Error, ''fetchByBoundingBox error:'')]\<rparr>)) \<and>
   (CacheService_get (env_backend env) (env_JSON_parse env)
        (buildKey (env_numstr env) ''calgary'' ''nearby''
           [(''lat'', JNum (n_lat nq)), (''lng'', JNum (n_lng nq)), (''radius'', JNum (n_radius nq)),
            (''limit'', JNum (n_limit nq))]) w = (Inr cached, w1) \<and>
    \<not> truthy cached \<and>
    fetchByRadius (env_upstream env) (env_randomUUID env)
        \<lparr> q_lat = n_lat nq, q_lng = n_lng nq, radiusMetres = n_radius nq, q_limit = Some (n_limit nq) \<rparr> w1
      = (Inl err, w2) \<longrightarrow>
    get_businesses_nearby env (Inr nq) w
      = (Inr \<lparr> statusCode = 502, x_cache = None, body = ErrorBody ''Upstream data source unavailable'' \<rparr>,
         w2\<lparr>console := console w2 @ [(Error, ''fetchByRadius error:'')]\<rparr>)) \<and>
   (CacheService_get (env_backend env) (env_JSON_parse env)
        (buildKey (env_numstr env) ''calgary'' ''staff-bbox''
           [(''north'', JNum (north q)), (''south'', JNum (south q)), (''east'', JNum (east q)),
            (''west'', JNum (west q)), (''limit'', JNum (limit q))]) w = (Inr cached, w1) \<and>
    \<not> truthy cached \<and>
    fetchByBoundingBox (env_upstream env) (env_randomUUID env)
        \<lparr> north = north q, south = south q, east = east q, west = west q \<rparr> (Some (limit q)) w1
      = (Inl err, w2) \<longrightarrow>
    get_staff_businesses env (Inr q) w
      = (Inr \<lparr> statusCode = 502, x_cache = None, body = ErrorBody ''Upstream data source unavailable'' \<rparr>,
         w2\<lparr>console := console w2 @ [(Error, ''staff fetchByBoundingBox error:'')]\<rparr>))"
  by (simp add: get_businesses_def get_businesses_nearby_def get_staff_businesses_def try_catch_def Let_def)

lemma fetchByBoundingBox_always_500:
  "fetchByBoundingBox upstream_always_500 randomUUID
      \<lparr> north = north sample_bboxQuery, south = south sample_bboxQuery, east = east sample_bboxQuery,
        west = west sample_bboxQuery \<rparr> (Some (limit sample_bboxQuery)) world0
    = (Inl (UpstreamError (HttpError 500)),
       world0\<lparr>sent := replicate 4 sample_params, waited := [1, 2, 3]\<rparr>)"
proof -
  have "\<lparr> where_param = PointNotNullWithinBox (north sample_bboxQuery) (west sample_bboxQuery)
            (south sample_bboxQuery) (east sample_bboxQuery),
          limit_param = limit sample_bboxQuery, order_param = ''FIRST_ISS_DT DESC'' \<rparr> = sample_params"
    by (simp add: sample_bboxQuery_def sample_params_def)
  then show ?thesis
    by (simp add: fetchByBoundingBox_def Let_def client_get_always_500)
qed

lemma InMemory_miss:
  "CacheService_get InMemoryBackend JSON_parse key world0 = (Inr JNull, world0)"
  by (simp add: CacheService_get_def try_catch_def InMemoryBackend_def world0_def)

lemma fetchByRadius_always_500:
  "fst (fetchByRadius upstream_always_500 randomUUID query w) = Inl (UpstreamError (HttpError 500))"
  by (simp add: fetchByRadius_def fetchByBoundingBox_def Let_def client_get_always_500_any)

theorem upstream_failure_gives_502_witness:
  "CacheService_get (env_backend sample_env) (env_JSON_parse sample_env)
        (buildKey (env_numstr sample_env) ''calgary'' ''bbox''
           [(''north'', JNum (north sample_bboxQuery)), (''south'', JNum (south sample_bboxQuery)),
            (''east'', JNum (east sample_bboxQuery)), (''west'', JNum (west sample_bboxQuery)),
            (''limit'', JNum (limit sample_bboxQuery))]) world0 = (Inr JNull, world0) \<and>
   \<not> truthy JNull \<and>
   fetchByBoundingBox (env_upstream sample_env) (env_randomUUID sample_env)
      \<lparr> north = north sample_bboxQuery, south = south sample_bboxQuery, east = east sample_bboxQuery,
        west = west sample_bboxQuery \<rparr> (Some (limit sample_bboxQuery)) world0
     = (Inl (UpstreamError (HttpError 500)),
        world0\<lparr>sent := replicate 4 sample_params, waited := [1, 2, 3]\<rparr>) \<and>
   get_businesses sample_env (Inr sample_bboxQuery) world0
     = (Inr \<lparr> statusCode = 502, x_cache = None, body = ErrorBody ''Upstream data source unavailable'' \<rparr>,
        world0\<lparr>sent := replicate 4 sample_params, waited := [1, 2, 3],
               console := [(Error, ''fetchByBoundingBox error:'')]\<rparr>) \<and>
   get_staff_businesses sample_env (Inr sample_bboxQuery) world0
     = (Inr \<lparr> statusCode = 502, x_cache = None, body = ErrorBody ''Upstream data source unavailable'' \<rparr>,
        world0\<lparr>sent := replicate 4 sample_params, waited := [1, 2, 3],
               console := [(Error, ''staff fetchByBoundingBox error:'')]\<rparr>) \<and>
   fst (get_businesses_nearby sample_env (Inr sample_nearbyQuery) world0)
     = Inr \<lparr> statusCode = 502, x_cache = None, body = ErrorBody ''Upstream data source unavailable'' \<rparr>"
proof -
  have e: "env_backend sample_env = InMemoryBackend" "env_upstream sample_env = upstream_always_500"
    by (simp_all add: sample_env_def)
  have c: "console world0 = []" by (simp add: world0_def)
  let ?q = "\<lparr> q_lat = n_lat sample_nearbyQuery, q_lng = n_lng sample_nearbyQuery,
      radiusMetres = n_radius sample_nearbyQuery, q_limit = Some (n_limit sample_nearbyQuery) \<rparr>"
  have f: "fetchByRadius (env_upstream sample_env) (env_randomUUID sample_env) ?q world0
      = (Inl (UpstreamError (HttpError 500)),
         snd (fetchByRadius (env_upstream sample_env) (env_randomUUID sample_env) ?q world0))"
    by (rule prod_eqI) (simp_all add: e fetchByRadius_always_500)
  from upstream_failure_gives_502 [where env = sample_env and nq = sample_nearbyQuery and w = world0
      and cached = JNull and ?w1.0 = world0 and err = "UpstreamError (HttpError 500)"
      and ?w2.0 = "snd (fetchByRadius (env_upstream sample_env) (env_randomUUID sample_env) ?q world0)",
      THEN conjunct2, THEN conjunct1]
  have nearby: "fst (get_businesses_nearby sample_env (Inr sample_nearbyQuery) world0)
     = Inr \<lparr> statusCode = 502, x_cache = None, body = ErrorBody ''Upstream data source unavailable'' \<rparr>"
    using f by (simp add: e(1) InMemory_miss)
  from upstream_failure_gives_502 [where env = sample_env and q = sample_bboxQuery and w = world0
      and cached = JNull and ?w1.0 = world0 and err = "UpstreamError (HttpError 500)"
      and ?w2.0 = "world0\<lparr>sent := replicate 4 sample_params, waited := [1, 2, 3]\<rparr>"]
  show ?thesis
    by (simp add: e c nearby InMemory_miss fetchByBoundingBox_always_500)
qed

end
